theory Spec2Isabelle
  imports Main
begin

section \<open>Results, exceptions and the logger\<close>

text \<open>
  The Vulkan C++ binding turns every result code outside the success codes of a call into
  a thrown \<^verbatim>\<open>vk::SystemError\<close>; the engine itself throws \<^verbatim>\<open>std::runtime_error\<close>,
  and a failed checked downcast throws \<^verbatim>\<open>std::bad_cast\<close>. A function of the model
  returns its outcome together with the state it leaves behind, since a C++ exception
  does not roll back what was done before it was thrown.
\<close>

datatype VkError =
    OutOfHostMemory
  | OutOfDeviceMemory
  | InitializationFailed
  | DeviceLost

datatype VkResult = VK_SUCCESS | VK_NOT_READY | VK_ERROR VkError

datatype exception =
    SystemError VkError
  | RuntimeError string
  | BadCast

datatype level_enum = debug | info | warn | err

datatype PhysicalDeviceType = Other | IntegratedGpu | DiscreteGpu | VirtualGpu | Cpu

datatype QueueFlagBits = Graphics | Compute | Transfer | SparseBinding

type_synonym QueueFlags = "QueueFlagBits set"

datatype DebugUtilsMessageSeverityFlagBitsEXT = Verbose | Info | Warning | Error

datatype DebugUtilsMessageTypeFlagBitsEXT = General | Validation | Performance

text \<open>
  A log call is kept as the logger receives it: the level, the format string and the
  arguments. Floating-point arguments are carried as opaque bit patterns.
\<close>

datatype log_arg =
    S string
  | N nat
  | I int
  | F nat
  | DeviceTypeArg PhysicalDeviceType
  | QueueFlagsArg QueueFlags
  | MessageTypeArg "DebugUtilsMessageTypeFlagBitsEXT set"
  | ObjectTypeArg nat

type_synonym log_entry = "level_enum \<times> string \<times> log_arg list"

section \<open>The driver and the platform\<close>

text \<open>
  What the code sees of the installed driver: the physical devices it enumerates, with
  their properties and queue families; the fences it has created; and the result it will
  give to each kind of fallible call. The record also keeps every driver call the code
  makes, in order, and every line handed to the logger.
\<close>

record PhysicalDeviceProperties =
  apiVersion :: nat
  driverVersion :: nat
  vendorID :: nat
  deviceID :: nat
  deviceType :: PhysicalDeviceType
  deviceName :: string

record QueueFamilyProperties =
  queueFlags :: QueueFlags
  queueCount :: nat

text \<open>
  \<open>presentationSupport\<close> lists the queue families of the device that can present to the
  target surface, as the platform's surface provider answers it.
\<close>

record PhysicalDevice =
  handle :: nat
  properties :: PhysicalDeviceProperties
  queueFamilyProperties :: "QueueFamilyProperties list"
  presentationSupport :: "nat list"

datatype FenceCreateFlagBits = Signaled

datatype Queue = Queue (queueFamilyIndex: nat) (queueIndex: nat)

text \<open>
  Pipeline stages are declared outside the files at hand; a stage is carried by the
  ordinal of its enumerator, and \<open>PipelineStageFlags\<close> wraps the translated stage.
\<close>

type_synonym GraphicsPipelineStage = nat

datatype PipelineStageFlags = PipelineStageFlags GraphicsPipelineStage

record SubmitInfo =
  pWaitSemaphores :: "nat list"
  pWaitDstStageMask :: "PipelineStageFlags list"
  pCommandBuffers :: "nat list"
  pSignalSemaphores :: "nat list"

record ApplicationInfo =
  pApplicationName :: string
  applicationVersion :: nat
  pEngineName :: string
  engineVersion :: nat
  apiVersionRequested :: nat

record InstanceCreateInfo =
  pApplicationInfo :: ApplicationInfo
  ppEnabledLayerNames :: "string list"
  ppEnabledExtensionNames :: "string list"

record DebugUtilsMessengerCreateInfoEXT =
  messageSeverity :: "DebugUtilsMessageSeverityFlagBitsEXT set"
  messageType :: "DebugUtilsMessageTypeFlagBitsEXT set"

datatype PhysicalDeviceFeature = FillModeNonSolid | LargePoints | WideLines

record DeviceQueueCreateInfo =
  queueFamilyIndexRequested :: nat
  queueCountRequested :: nat
  pQueuePriorities :: "nat list"

record DeviceCreateInfo =
  pQueueCreateInfos :: "DeviceQueueCreateInfo list"
  ppEnabledDeviceExtensionNames :: "string list"
  pEnabledFeatures :: "PhysicalDeviceFeature set"

datatype MemoryPropertyFlagBits = DeviceLocal | HostVisible | HostCoherent | HostCached

datatype BufferUsageFlagBits =
  TransferSrc | TransferDst | UniformBuffer | StorageBuffer | IndexBuffer | VertexBuffer

datatype ImageUsageFlagBits = ImageTransferSrc | ImageTransferDst | Sampled | Storage

text \<open>The fallible entry points of the driver that the code calls.\<close>

datatype vk_api =
    ApiCreateInstance
  | ApiEnumerateInstanceExtensionProperties
  | ApiEnumerateInstanceLayerProperties
  | ApiCreateDebugUtilsMessenger
  | ApiEnumeratePhysicalDevices
  | ApiCreateDevice
  | ApiAllocateMemory
  | ApiCreateFence
  | ApiQueueSubmit
  | ApiGetFenceStatus
  | ApiDeviceWaitIdle

datatype vk_call =
    EnumerateInstanceExtensionProperties
  | EnumerateInstanceLayerProperties
  | CreateInstance InstanceCreateInfo
  | CreateDebugUtilsMessengerEXT DebugUtilsMessengerCreateInfoEXT
  | EnumeratePhysicalDevices
  | GetPhysicalDeviceProperties nat
  | GetPhysicalDeviceQueueFamilyProperties nat
  | CreateDevice nat DeviceCreateInfo
  | GetDeviceQueue nat nat
  | AllocateMemory nat "MemoryPropertyFlagBits set"
  | FreeMemory nat
  | CreateFence "FenceCreateFlagBits set"
  | DestroyFence nat
  | QueueSubmit "Queue option" SubmitInfo nat
  | GetFenceStatus nat
  | DeviceWaitIdle
  | DestroyDevice
  | DestroyDebugUtilsMessengerEXT
  | DestroyInstance

text \<open>
  \<open>liveFences\<close> are the fences created and not yet destroyed, \<open>pendingFences\<close> those
  handed to a successful queue submission whose batch the GPU has not finished, and
  \<open>signaledFences\<close> those whose batch the GPU has finished. \<open>faults\<close> says which entry
  points currently fail and with which error. The GPU finishing work is a step of the
  driver's own (\<open>gpu_signal\<close> below), taken between calls of the code.
\<close>

record environment =
  instanceExtensions :: "string list"
  instanceLayers :: "(string \<times> string) list"
  platformSurfaceExtension :: string
  physicalDevices :: "PhysicalDevice list"
  faults :: "(vk_api \<times> VkError) list"
  liveFences :: "nat list"
  pendingFences :: "nat list"
  signaledFences :: "nat list"
  calls :: "vk_call list"
  logged :: "log_entry list"

definition LOG :: "level_enum \<Rightarrow> string \<Rightarrow> log_arg list \<Rightarrow> environment \<Rightarrow> environment" where
  "LOG level fmt args env = env\<lparr>logged := logged env @ [(level, fmt, args)]\<rparr>"

definition called :: "vk_call \<Rightarrow> environment \<Rightarrow> environment" where
  "called c env = env\<lparr>calls := calls env @ [c]\<rparr>"

text \<open>
  A fallible call with the single success code \<open>VK_SUCCESS\<close>: the call is made, and the
  binding throws when the driver answers with an error.
\<close>

definition vk_try :: "vk_api \<Rightarrow> vk_call \<Rightarrow> environment \<Rightarrow> (exception + unit) \<times> environment" where
  "vk_try api c env =
     (case map_of (faults env) api of
        Some e \<Rightarrow> (Inl (SystemError e), called c env)
      | None \<Rightarrow> (Inr (), called c env))"

text \<open>
  The driver hands out a fence handle that is not null and is different from every
  fence it knows.
\<close>

definition fresh_fence :: "environment \<Rightarrow> nat" where
  "fresh_fence env =
     Suc (foldr max (liveFences env @ pendingFences env @ signaledFences env) 0)"

definition createFenceUnique ::
  "FenceCreateFlagBits set \<Rightarrow> environment \<Rightarrow> (exception + nat) \<times> environment" where
  "createFenceUnique flags env =
     (case vk_try ApiCreateFence (CreateFence flags) env of
        (Inl e, env1) \<Rightarrow> (Inl e, env1)
      | (Inr _, env1) \<Rightarrow>
          (let f = fresh_fence env in
           (Inr f, env1\<lparr>liveFences := liveFences env1 @ [f],
                        signaledFences :=
                          (if Signaled \<in> flags then signaledFences env1 @ [f]
                           else signaledFences env1)\<rparr>)))"

text \<open>Destruction of a \<^verbatim>\<open>vk::UniqueFence\<close>.\<close>

definition destroyFence :: "nat \<Rightarrow> environment \<Rightarrow> environment" where
  "destroyFence f env =
     (called (DestroyFence f) env)\<lparr>liveFences := removeAll f (liveFences env)\<rparr>"

definition queue_submit ::
  "Queue option \<Rightarrow> SubmitInfo \<Rightarrow> nat \<Rightarrow> environment \<Rightarrow> (exception + unit) \<times> environment" where
  "queue_submit q submit_info f env =
     (case vk_try ApiQueueSubmit (QueueSubmit q submit_info f) env of
        (Inl e, env1) \<Rightarrow> (Inl e, env1)
      | (Inr _, env1) \<Rightarrow> (Inr (), env1\<lparr>pendingFences := pendingFences env1 @ [f]\<rparr>))"

text \<open>
  The status query has two success codes; any error is thrown by the binding.
\<close>

definition getFenceStatus :: "nat \<Rightarrow> environment \<Rightarrow> (exception + VkResult) \<times> environment" where
  "getFenceStatus f env =
     (case map_of (faults env) ApiGetFenceStatus of
        Some e \<Rightarrow> (Inl (SystemError e), called (GetFenceStatus f) env)
      | None \<Rightarrow>
          (Inr (if f \<in> set (signaledFences env) then VK_SUCCESS else VK_NOT_READY),
           called (GetFenceStatus f) env))"

text \<open>
  Waiting for the device to go idle returns, when it succeeds, only after every batch
  submitted so far has completed, and so after each of their fences has been signaled.
\<close>

definition device_waitIdle :: "environment \<Rightarrow> (exception + unit) \<times> environment" where
  "device_waitIdle env =
     (case vk_try ApiDeviceWaitIdle DeviceWaitIdle env of
        (Inl e, env1) \<Rightarrow> (Inl e, env1)
      | (Inr _, env1) \<Rightarrow>
          (Inr (), env1\<lparr>signaledFences := signaledFences env1 @ pendingFences env1,
                         pendingFences := []\<rparr>))"

text \<open>The GPU finishes the batch that fence \<open>f\<close> was submitted with.\<close>

definition gpu_signal :: "nat \<Rightarrow> environment \<Rightarrow> environment" where
  "gpu_signal f env =
     (if f \<in> set (pendingFences env)
      then env\<lparr>pendingFences := removeAll f (pendingFences env),
               signaledFences := signaledFences env @ [f]\<rparr>
      else env)"

section \<open>Resources handed to a submission\<close>

text \<open>
  Callers hand in shared pointers to the abstract types \<^verbatim>\<open>GraphicsCommandList\<close> and
  \<^verbatim>\<open>GpuSemaphore\<close>; the object behind a pointer is either this backend's (with the
  Vulkan handle it wraps) or another backend's. The first field identifies the object.
  The classes of this backend both derive from \<^verbatim>\<open>VulkanBatchResource\<close>, so a strong
  reference to a batch resource is a strong reference to the same object. The code
  dereferences the pointers it is given without a check; a null pointer is not an input
  of the model.
\<close>

datatype GraphicsCommandList =
    VulkanGraphicsCommandList nat nat
  | ForeignGraphicsCommandList nat

datatype GpuSemaphore =
    VulkanSemaphore nat nat
  | ForeignGpuSemaphore nat

datatype VulkanBatchResource =
    CommandListResource GraphicsCommandList
  | SemaphoreResource GpuSemaphore

fun commandBuffer :: "GraphicsCommandList \<Rightarrow> exception + nat" where
  "commandBuffer (VulkanGraphicsCommandList obj cb) = Inr cb"
| "commandBuffer (ForeignGraphicsCommandList obj) = Inl BadCast"

fun semaphore :: "GpuSemaphore \<Rightarrow> exception + nat" where
  "semaphore (VulkanSemaphore obj sem) = Inr sem"
| "semaphore (ForeignGpuSemaphore obj) = Inl BadCast"

fun job_resource :: "GraphicsCommandList \<Rightarrow> exception + VulkanBatchResource" where
  "job_resource (VulkanGraphicsCommandList obj cb) =
     Inr (CommandListResource (VulkanGraphicsCommandList obj cb))"
| "job_resource (ForeignGraphicsCommandList obj) = Inl BadCast"

fun semaphore_resource :: "GpuSemaphore \<Rightarrow> exception + VulkanBatchResource" where
  "semaphore_resource (VulkanSemaphore obj sem) =
     Inr (SemaphoreResource (VulkanSemaphore obj sem))"
| "semaphore_resource (ForeignGpuSemaphore obj) = Inl BadCast"

text \<open>Applying a throwing function to each element in order; the first throw ends it.\<close>

fun transformObjects :: "('a \<Rightarrow> exception + 'b) \<Rightarrow> 'a list \<Rightarrow> exception + 'b list" where
  "transformObjects f [] = Inr []"
| "transformObjects f (x # xs) =
     (case f x of
        Inl e \<Rightarrow> Inl e
      | Inr y \<Rightarrow> (case transformObjects f xs of Inl e \<Rightarrow> Inl e | Inr ys \<Rightarrow> Inr (y # ys)))"

record BatchResourceList =
  fence :: nat
  resources :: "VulkanBatchResource list"

section \<open>Memory pools\<close>

record MemoryRequirements =
  req_size :: nat
  req_alignment :: nat
  req_memoryTypeBits :: nat

record BitmapMemoryAllocator =
  base :: "nat option"
  total_size :: nat
  block_size :: nat

record BitmapBufferPool =
  buffer_pool_size :: nat
  buffer_pool_memory_properties :: "MemoryPropertyFlagBits set"
  buffer_pool_usages :: "BufferUsageFlagBits set"
  buffer_pool_allocator_creator :: "MemoryRequirements \<Rightarrow> BitmapMemoryAllocator"

record BitmapImagePool =
  image_pool_size :: nat
  image_pool_memory_properties :: "MemoryPropertyFlagBits set"
  image_pool_usages :: "ImageUsageFlagBits set"
  image_pool_allocator_creator :: "MemoryRequirements \<Rightarrow> BitmapMemoryAllocator"

text \<open>
  Modelled from the spec: the constructors of the pool classes are not among the files at
  hand. "MemoryPool owns one large device allocation of a declared memory-property
  class": constructing a pool makes that one allocation, which the driver may refuse, and
  keeps the arguments it was given.
\<close>

definition make_BitmapBufferPool ::
  "nat \<Rightarrow> MemoryPropertyFlagBits set \<Rightarrow> BufferUsageFlagBits set
     \<Rightarrow> (MemoryRequirements \<Rightarrow> BitmapMemoryAllocator) \<Rightarrow> environment
     \<Rightarrow> (exception + BitmapBufferPool) \<times> environment" where
  "make_BitmapBufferPool sz props usages creator env =
     (case vk_try ApiAllocateMemory (AllocateMemory sz props) env of
        (Inl e, env1) \<Rightarrow> (Inl e, env1)
      | (Inr _, env1) \<Rightarrow>
          (Inr \<lparr>buffer_pool_size = sz, buffer_pool_memory_properties = props,
                buffer_pool_usages = usages, buffer_pool_allocator_creator = creator\<rparr>, env1))"

definition make_BitmapImagePool ::
  "nat \<Rightarrow> MemoryPropertyFlagBits set \<Rightarrow> ImageUsageFlagBits set
     \<Rightarrow> (MemoryRequirements \<Rightarrow> BitmapMemoryAllocator) \<Rightarrow> environment
     \<Rightarrow> (exception + BitmapImagePool) \<times> environment" where
  "make_BitmapImagePool sz props usages creator env =
     (case vk_try ApiAllocateMemory (AllocateMemory sz props) env of
        (Inl e, env1) \<Rightarrow> (Inl e, env1)
      | (Inr _, env1) \<Rightarrow>
          (Inr \<lparr>image_pool_size = sz, image_pool_memory_properties = props,
                image_pool_usages = usages, image_pool_allocator_creator = creator\<rparr>, env1))"

section \<open>The device\<close>

text \<open>
  The members of \<^verbatim>\<open>VulkanGpuDevice\<close> that the code at hand reads and writes. A unique
  handle or pointer that holds nothing, and a plain handle that is null, is \<open>None\<close>.
\<close>

record VulkanGpuDevice =
  mInstance :: "InstanceCreateInfo option"
  mDebugUtilsMessenger :: "DebugUtilsMessengerCreateInfoEXT option"
  mPhysicalDevice :: "PhysicalDevice option"
  mDevice :: "DeviceCreateInfo option"
  mGraphicsQueue :: "Queue option"
  mGraphicsQueueFamilyIndex :: nat
  mDynamicBufferPool :: "BitmapBufferPool option"
  mHostImagePool :: "BitmapImagePool option"
  mBatchResourceLists :: "BatchResourceList list"

type_synonym state = "VulkanGpuDevice \<times> environment"

type_synonym outcome = "(exception + unit) \<times> state"

definition and_then :: "outcome \<Rightarrow> (state \<Rightarrow> outcome) \<Rightarrow> outcome" where
  "and_then r f = (case r of (Inl e, s) \<Rightarrow> (Inl e, s) | (Inr _, s) \<Rightarrow> f s)"

subsection \<open>The debug messenger callback\<close>

record DebugUtilsObjectNameInfoEXT =
  objectType :: nat
  objectHandle :: nat
  pObjectName :: "string option"

record DebugUtilsLabelEXT =
  pLabelName :: string
  color :: "nat \<times> nat \<times> nat \<times> nat"

text \<open>
  \<open>objectCount\<close> and \<open>cmdBufLabelCount\<close> are the lengths of the two arrays.
\<close>

record DebugUtilsMessengerCallbackDataEXT =
  pMessageIdName :: "string option"
  messageIdNumber :: int
  pMessage :: string
  pObjects :: "DebugUtilsObjectNameInfoEXT list"
  pCmdBufLabels :: "DebugUtilsLabelEXT list"

definition severity_level :: "DebugUtilsMessageSeverityFlagBitsEXT set \<Rightarrow> level_enum" where
  "severity_level message_severity =
     (if Verbose \<in> message_severity then debug
      else if Info \<in> message_severity then info
      else if Warning \<in> message_severity then warn
      else if Error \<in> message_severity then err
      else info)"

fun log_objects ::
  "level_enum \<Rightarrow> nat \<Rightarrow> DebugUtilsObjectNameInfoEXT list \<Rightarrow> environment \<Rightarrow> environment" where
  \<open>log_objects level i [] env = env\<close>
| \<open>log_objects level i (object # rest) env =
     log_objects level (Suc i) rest
       (LOG level ''Object #{}: Handle {}, Type {}, Name "{}"''
          [N i, N (objectHandle object), ObjectTypeArg (objectType object),
           S (case pObjectName object of Some n \<Rightarrow> n | None \<Rightarrow> [])] env)\<close>

fun log_labels ::
  "level_enum \<Rightarrow> nat \<Rightarrow> DebugUtilsLabelEXT list \<Rightarrow> environment \<Rightarrow> environment" where
  "log_labels level i [] env = env"
| "log_labels level i (label # rest) env =
     log_labels level (Suc i) rest
       (case color label of (c0, c1, c2, c3) \<Rightarrow>
          LOG level (''Label #{}: {} {{ {}, {}, {}, {} }}'' @ [CHR 0x0A])
            [N i, S (pLabelName label), F c0, F c1, F c2, F c3] env)"

definition debugMessengerCallback ::
  "DebugUtilsMessageSeverityFlagBitsEXT set \<Rightarrow> DebugUtilsMessageTypeFlagBitsEXT set
     \<Rightarrow> DebugUtilsMessengerCallbackDataEXT \<Rightarrow> environment \<Rightarrow> bool \<times> environment" where
  "debugMessengerCallback message_severity message_type callback_data env =
     (let level = severity_level message_severity;
          env1 = LOG level ''[Vulkan] {} [{}][ID={}]: {}''
                   [MessageTypeArg message_type,
                    S (case pMessageIdName callback_data of
                         Some n \<Rightarrow> n | None \<Rightarrow> ''<Unknown>''),
                    I (messageIdNumber callback_data),
                    S (pMessage callback_data)] env;
          env2 = (if length (pObjects callback_data) > 0
                  then log_objects level 0 (pObjects callback_data) env1
                  else env1);
          env3 = (if length (pCmdBufLabels callback_data) > 0
                  then log_labels level 0 (pCmdBufLabels callback_data)
                         (LOG info ''Command Buffer Label Count: {}''
                            [N (length (pCmdBufLabels callback_data))] env2)
                  else env2)
      in (False, env3))"

definition debugMessengerCallbackDispatcher ::
  "DebugUtilsMessageSeverityFlagBitsEXT \<Rightarrow> DebugUtilsMessageTypeFlagBitsEXT set
     \<Rightarrow> DebugUtilsMessengerCallbackDataEXT \<Rightarrow> environment \<Rightarrow> bool \<times> environment" where
  "debugMessengerCallbackDispatcher message_severity message_type callback_data env =
     debugMessengerCallback {message_severity} message_type callback_data env"

subsection \<open>Initialization\<close>

definition VK_MAKE_VERSION :: "nat \<Rightarrow> nat \<Rightarrow> nat \<Rightarrow> nat" where
  "VK_MAKE_VERSION major minor patch = major * 2 ^ 22 + minor * 2 ^ 12 + patch"

definition VK_API_VERSION_1_0 :: nat where
  "VK_API_VERSION_1_0 = VK_MAKE_VERSION 1 0 0"

definition separator :: string where
  "separator = ''--------------------------------''"

fun log_extensions :: "string list \<Rightarrow> environment \<Rightarrow> environment" where
  "log_extensions [] env = env"
| "log_extensions (ext # rest) env = log_extensions rest (LOG info ext [] env)"

fun log_layers :: "(string \<times> string) list \<Rightarrow> environment \<Rightarrow> environment" where
  "log_layers [] env = env"
| "log_layers ((layerName, description) # rest) env =
     log_layers rest
       (LOG info separator []
         (LOG info ''Description: {}'' [S description]
           (LOG info ''Name       : {}'' [S layerName] env)))"

text \<open>
  The platform part of the device adds the name of its window-surface extension to the
  list of instance extensions.
\<close>

definition addPlatformSurfaceExtension :: "string list \<Rightarrow> environment \<Rightarrow> string list" where
  "addPlatformSurfaceExtension extensions env = extensions @ [platformSurfaceExtension env]"

definition createInstance :: "state \<Rightarrow> outcome" where
  "createInstance s =
     (case s of (dev, env) \<Rightarrow>
      let env1 = LOG info separator [] (LOG info ''Creating Vulkan intance'' [] env);
          application_info =
            \<lparr>pApplicationName = ''UsagiEngine'',
             applicationVersion = VK_MAKE_VERSION 1 0 0,
             pEngineName = ''Usagi'',
             engineVersion = VK_MAKE_VERSION 1 0 0,
             apiVersionRequested = VK_API_VERSION_1_0\<rparr>;
          env2 = LOG info separator [] (LOG info ''Available instance extensions'' [] env1)
      in
      case vk_try ApiEnumerateInstanceExtensionProperties
             EnumerateInstanceExtensionProperties env2 of
        (Inl e, env3) \<Rightarrow> (Inl e, dev, env3)
      | (Inr _, env3) \<Rightarrow>
     (let env4 = LOG info separator [] (log_extensions (instanceExtensions env3) env3);
          env5 = LOG info separator [] (LOG info ''Available validation layers'' [] env4)
      in
      case vk_try ApiEnumerateInstanceLayerProperties
             EnumerateInstanceLayerProperties env5 of
        (Inl e, env6) \<Rightarrow> (Inl e, dev, env6)
      | (Inr _, env6) \<Rightarrow>
     (let env7 = log_layers (instanceLayers env6) env6;
          instance_extensions =
            addPlatformSurfaceExtension [''VK_KHR_surface'', ''VK_EXT_debug_utils''] env7;
          validation_layers = [''VK_LAYER_LUNARG_standard_validation''];
          instance_create_info =
            \<lparr>pApplicationInfo = application_info,
             ppEnabledLayerNames = validation_layers,
             ppEnabledExtensionNames = instance_extensions\<rparr>
      in
      case vk_try ApiCreateInstance (CreateInstance instance_create_info) env7 of
        (Inl e, env8) \<Rightarrow> (Inl e, dev, env8)
      | (Inr _, env8) \<Rightarrow>
          (Inr (), dev\<lparr>mInstance := Some instance_create_info\<rparr>, env8))))"

definition createDebugReport :: "state \<Rightarrow> outcome" where
  "createDebugReport s =
     (case s of (dev, env) \<Rightarrow>
      let create_info = \<lparr>messageSeverity = {Warning, Error},
                         messageType = {General, Validation, Performance}\<rparr>
      in
      case vk_try ApiCreateDebugUtilsMessenger (CreateDebugUtilsMessengerEXT create_info) env of
        (Inl e, env1) \<Rightarrow> (Inl e, dev, env1)
      | (Inr _, env1) \<Rightarrow>
          (Inr (), dev\<lparr>mDebugUtilsMessenger := Some create_info\<rparr>, env1))"

fun selectPhysicalDevice_loop :: "PhysicalDevice list \<Rightarrow> state \<Rightarrow> state" where
  "selectPhysicalDevice_loop [] s = s"
| "selectPhysicalDevice_loop (d # rest) (dev, env) =
     (let prop = properties d;
          env1 = called (GetPhysicalDeviceProperties (handle d)) env;
          env2 = LOG info ''Device Name   : {}'' [S (deviceName prop)] env1;
          env3 = LOG info ''Device Type   : {}'' [DeviceTypeArg (deviceType prop)] env2;
          env4 = LOG info ''Device ID     : {}'' [N (deviceID prop)] env3;
          env5 = LOG info ''API Version   : {}'' [N (apiVersion prop)] env4;
          env6 = LOG info ''Driver Version: {}'' [N (vendorID prop)] env5;
          env7 = LOG info ''Vendor ID     : {}'' [N (vendorID prop)] env6;
          env8 = LOG info separator [] env7;
          dev1 = (if mPhysicalDevice dev = None then dev\<lparr>mPhysicalDevice := Some d\<rparr>
                  else if deviceType prop = DiscreteGpu then dev\<lparr>mPhysicalDevice := Some d\<rparr>
                  else dev)
      in selectPhysicalDevice_loop rest (dev1, env8))"

definition selectPhysicalDevice :: "state \<Rightarrow> outcome" where
  "selectPhysicalDevice s =
     (case s of (dev, env) \<Rightarrow>
      let env1 = LOG info separator [] (LOG info ''Available physical devices'' [] env) in
      case vk_try ApiEnumeratePhysicalDevices EnumeratePhysicalDevices env1 of
        (Inl e, env2) \<Rightarrow> (Inl e, dev, env2)
      | (Inr _, env2) \<Rightarrow>
          (case selectPhysicalDevice_loop (physicalDevices env2) (dev, env2) of
             (dev1, env3) \<Rightarrow>
               (case mPhysicalDevice dev1 of
                  None \<Rightarrow> (Inl (RuntimeError ''No available GPU supporting Vulkan.''), dev1, env3)
                | Some d \<Rightarrow>
                    (Inr (), dev1,
                     LOG info ''Using physical device: {}'' [S (deviceName (properties d))]
                       (called (GetPhysicalDeviceProperties (handle d)) env3)))))"

text \<open>\<^verbatim>\<open>utility::matchAllFlags\<close>: every requested flag is set in the value.\<close>

definition matchAllFlags :: "'a set \<Rightarrow> 'a set \<Rightarrow> bool" where
  "matchAllFlags v flags = (flags \<subseteq> v)"

text \<open>
  The loop of \<open>selectQueue\<close>; \<open>i\<close> is the distance of the iterator from the beginning.
\<close>

fun selectQueue_from :: "nat \<Rightarrow> QueueFamilyProperties list \<Rightarrow> QueueFlags \<Rightarrow> exception + nat" where
  "selectQueue_from i [] queue_flags =
     Inl (RuntimeError ''Could not find a queue family with required flags.'')"
| "selectQueue_from i (qf # rest) queue_flags =
     (if matchAllFlags (queueFlags qf) queue_flags then Inr i
      else selectQueue_from (Suc i) rest queue_flags)"

definition selectQueue :: "QueueFamilyProperties list \<Rightarrow> QueueFlags \<Rightarrow> exception + nat" where
  "selectQueue queue_family queue_flags = selectQueue_from 0 queue_family queue_flags"

text \<open>
  Modelled from the spec: \<open>checkQueuePresentationCapacity\<close> is implemented by the
  platform part of the device, which is not among the files at hand. "Assert that family
  also supports presentation on the target surface (query delegated to external
  collaborator)"; the assertion throws when the family cannot present.
\<close>

definition checkQueuePresentationCapacity :: "VulkanGpuDevice \<Rightarrow> nat \<Rightarrow> exception + unit" where
  "checkQueuePresentationCapacity dev queue_family_index =
     (case mPhysicalDevice dev of
        None \<Rightarrow> Inl (RuntimeError ''Graphics queue does not support presentation.'')
      | Some d \<Rightarrow>
          if queue_family_index \<in> set (presentationSupport d) then Inr ()
          else Inl (RuntimeError ''Graphics queue does not support presentation.''))"

fun log_queue_families :: "nat \<Rightarrow> QueueFamilyProperties list \<Rightarrow> environment \<Rightarrow> environment" where
  "log_queue_families i [] env = env"
| "log_queue_families i (qf # rest) env =
     log_queue_families (Suc i) rest
       (LOG info ''#{}: {} * {}'' [N i, QueueFlagsArg (queueFlags qf), N (queueCount qf)] env)"

text \<open>The queue handle the logical device gives for a family and an index.\<close>

definition getQueue :: "nat \<Rightarrow> nat \<Rightarrow> Queue" where
  "getQueue family index = Queue family index"

text \<open>
  \<open>createDeviceAndQueues\<close> runs after \<open>selectPhysicalDevice\<close> has succeeded; a null
  physical device is given no queue families here.
\<close>

definition createDeviceAndQueues :: "state \<Rightarrow> outcome" where
  "createDeviceAndQueues s =
     (case s of (dev, env) \<Rightarrow>
      let env1 = LOG info ''Creating device and queues'' [] env;
          queue_families =
            (case mPhysicalDevice dev of None \<Rightarrow> [] | Some d \<Rightarrow> queueFamilyProperties d);
          env2 = (case mPhysicalDevice dev of
                    None \<Rightarrow> env1
                  | Some d \<Rightarrow> called (GetPhysicalDeviceQueueFamilyProperties (handle d)) env1);
          env3 = log_queue_families 0 queue_families
                   (LOG info ''Supported queue families:'' [] env2)
      in
      case selectQueue queue_families {Graphics, Transfer} of
        Inl e \<Rightarrow> (Inl e, dev, env3)
      | Inr graphics_queue_index \<Rightarrow>
     (case checkQueuePresentationCapacity dev graphics_queue_index of
        Inl e \<Rightarrow> (Inl e, dev, env3)
      | Inr _ \<Rightarrow>
     (let env4 = LOG info ''Getting a queue from queue family {}.''
                   [N graphics_queue_index] env3;
          queue_create_info =
            \<lparr>queueFamilyIndexRequested = graphics_queue_index,
             queueCountRequested = 1,
             pQueuePriorities = [1]\<rparr>;
          device_create_info =
            \<lparr>pQueueCreateInfos = [queue_create_info],
             ppEnabledDeviceExtensionNames = [''VK_KHR_swapchain''],
             pEnabledFeatures = {FillModeNonSolid, LargePoints, WideLines}\<rparr>
      in
      case vk_try ApiCreateDevice
             (CreateDevice (case mPhysicalDevice dev of None \<Rightarrow> 0 | Some d \<Rightarrow> handle d)
                device_create_info) env4 of
        (Inl e, env5) \<Rightarrow> (Inl e, dev, env5)
      | (Inr _, env5) \<Rightarrow>
          (Inr (),
           dev\<lparr>mDevice := Some device_create_info,
               mGraphicsQueue := Some (getQueue graphics_queue_index 0),
               mGraphicsQueueFamilyIndex := graphics_queue_index\<rparr>,
           called (GetDeviceQueue graphics_queue_index 0) env5))))"

definition allocator_creator :: "MemoryRequirements \<Rightarrow> BitmapMemoryAllocator" where
  "allocator_creator req = \<lparr>base = None, total_size = req_size req, block_size = 32 * 1024\<rparr>"

definition createMemoryPools :: "state \<Rightarrow> outcome" where
  "createMemoryPools s =
     (case s of (dev, env) \<Rightarrow>
      case make_BitmapBufferPool (1024 * 1024 * 128) {HostVisible, HostCoherent}
             {VertexBuffer, IndexBuffer, UniformBuffer} allocator_creator env of
        (Inl e, env1) \<Rightarrow> (Inl e, dev, env1)
      | (Inr buffer_pool, env1) \<Rightarrow>
     (case make_BitmapImagePool (1024 * 1024 * 128) {HostVisible, HostCoherent}
             {Sampled} allocator_creator env1 of
        (Inl e, env2) \<Rightarrow> (Inl e, dev\<lparr>mDynamicBufferPool := Some buffer_pool\<rparr>, env2)
      | (Inr image_pool, env2) \<Rightarrow>
          (Inr (), dev\<lparr>mDynamicBufferPool := Some buffer_pool,
                       mHostImagePool := Some image_pool\<rparr>, env2)))"

subsection \<open>Destruction of the members\<close>

text \<open>
  Modelled from the spec: the order of the members in the class is declared outside the
  files at hand. "Cleanup ordering at destruction: ... drop the outstanding-batch list,
  drop memory pools, drop logical device, drop debug sink, drop instance." Dropping a
  batch destroys its fence and releases its references.
\<close>

fun destroy_batches :: "BatchResourceList list \<Rightarrow> environment \<Rightarrow> environment" where
  "destroy_batches [] env = env"
| "destroy_batches (b # bs) env = destroy_batches bs (destroyFence (fence b) env)"

definition destroy_members :: "VulkanGpuDevice \<Rightarrow> environment \<Rightarrow> environment" where
  "destroy_members dev env =
     (let env1 = destroy_batches (mBatchResourceLists dev) env;
          env2 = (case mHostImagePool dev of
                    None \<Rightarrow> env1 | Some p \<Rightarrow> called (FreeMemory (image_pool_size p)) env1);
          env3 = (case mDynamicBufferPool dev of
                    None \<Rightarrow> env2 | Some p \<Rightarrow> called (FreeMemory (buffer_pool_size p)) env2);
          env4 = (case mDevice dev of None \<Rightarrow> env3 | Some _ \<Rightarrow> called DestroyDevice env3);
          env5 = (case mDebugUtilsMessenger dev of
                    None \<Rightarrow> env4 | Some _ \<Rightarrow> called DestroyDebugUtilsMessengerEXT env4)
      in (case mInstance dev of None \<Rightarrow> env5 | Some _ \<Rightarrow> called DestroyInstance env5))"

subsection \<open>Constructor and destructor\<close>

text \<open>
  Before the constructor body runs, the handles are null, the list is empty, and the
  queue family index holds whatever value \<open>indeterminate\<close> it is given. A step that
  throws ends the construction; the members built so far are destroyed.
\<close>

definition unconstructed :: "nat \<Rightarrow> VulkanGpuDevice" where
  "unconstructed indeterminate =
     \<lparr>mInstance = None, mDebugUtilsMessenger = None, mPhysicalDevice = None,
      mDevice = None, mGraphicsQueue = None, mGraphicsQueueFamilyIndex = indeterminate,
      mDynamicBufferPool = None, mHostImagePool = None, mBatchResourceLists = []\<rparr>"

definition VulkanGpuDevice_ctor ::
  "nat \<Rightarrow> environment \<Rightarrow> (exception + VulkanGpuDevice) \<times> environment" where
  "VulkanGpuDevice_ctor indeterminate env =
     (case and_then (and_then (and_then (and_then
             (createInstance (unconstructed indeterminate, env))
             createDebugReport) selectPhysicalDevice) createDeviceAndQueues)
             createMemoryPools of
        (Inl e, dev, env1) \<Rightarrow> (Inl e, destroy_members dev env1)
      | (Inr _, dev, env1) \<Rightarrow> (Inr dev, env1))"

text \<open>
  The destructor body waits for the device to be idle; the members are destroyed after
  the body. An exception leaving the body ends the program, so that \<open>Inl\<close> here is a
  termination and no member has been destroyed.
\<close>

definition VulkanGpuDevice_dtor :: "state \<Rightarrow> (exception + unit) \<times> environment" where
  "VulkanGpuDevice_dtor s =
     (case s of (dev, env) \<Rightarrow>
      case device_waitIdle env of
        (Inl e, env1) \<Rightarrow> (Inl e, env1)
      | (Inr _, env1) \<Rightarrow> (Inr (), destroy_members dev env1))"

subsection \<open>Submission and reclaim\<close>

definition submitGraphicsJobs ::
  "GraphicsCommandList list \<Rightarrow> GpuSemaphore list \<Rightarrow> GraphicsPipelineStage list
     \<Rightarrow> GpuSemaphore list \<Rightarrow> state \<Rightarrow> outcome" where
  "submitGraphicsJobs jobs wait_semaphores wait_stages signal_semaphores s =
     (case s of (dev, env) \<Rightarrow>
      case transformObjects commandBuffer jobs of
        Inl e \<Rightarrow> (Inl e, dev, env)
      | Inr vk_jobs \<Rightarrow>
     (case transformObjects semaphore wait_semaphores of
        Inl e \<Rightarrow> (Inl e, dev, env)
      | Inr vk_wait_sems \<Rightarrow>
     (let vk_wait_stages = map PipelineStageFlags wait_stages in
      case transformObjects semaphore signal_semaphores of
        Inl e \<Rightarrow> (Inl e, dev, env)
      | Inr vk_signal_sems \<Rightarrow>
     (case createFenceUnique {} env of
        (Inl e, env1) \<Rightarrow> (Inl e, dev, env1)
      | (Inr f, env1) \<Rightarrow>
     (let submit_info =
            \<lparr>pWaitSemaphores = vk_wait_sems,
             pWaitDstStageMask = vk_wait_stages,
             pCommandBuffers = vk_jobs,
             pSignalSemaphores = vk_signal_sems\<rparr>
      in
      case transformObjects job_resource jobs of
        Inl e \<Rightarrow> (Inl e, dev, destroyFence f env1)
      | Inr r1 \<Rightarrow>
     (case transformObjects semaphore_resource wait_semaphores of
        Inl e \<Rightarrow> (Inl e, dev, destroyFence f env1)
      | Inr r2 \<Rightarrow>
     (case transformObjects semaphore_resource signal_semaphores of
        Inl e \<Rightarrow> (Inl e, dev, destroyFence f env1)
      | Inr r3 \<Rightarrow>
     (case queue_submit (mGraphicsQueue dev) submit_info f env1 of
        (Inl e, env2) \<Rightarrow> (Inl e, dev, destroyFence f env2)
      | (Inr _, env2) \<Rightarrow>
          (Inr (),
           dev\<lparr>mBatchResourceLists :=
                 mBatchResourceLists dev @ [\<lparr>fence = f, resources = r1 @ r2 @ r3\<rparr>]\<rparr>,
           env2)))))))))"

text \<open>
  The loop of \<open>reclaimResources\<close> over the batches from the iterator on. It returns the
  exception that ended it, if any, what is left of those batches, and the environment.
  Erasing a batch destroys it, and with it its fence. The queries of one pass are
  answered from the driver state the pass starts in.
\<close>

fun reclaim_from ::
  "BatchResourceList list \<Rightarrow> environment
     \<Rightarrow> exception option \<times> BatchResourceList list \<times> environment" where
  "reclaim_from [] env = (None, [], env)"
| "reclaim_from (b # bs) env =
     (case getFenceStatus (fence b) env of
        (Inl e, env1) \<Rightarrow> (Some e, b # bs, env1)
      | (Inr status, env1) \<Rightarrow>
          if status = VK_SUCCESS then reclaim_from bs (destroyFence (fence b) env1)
          else (case reclaim_from bs env1 of (r, bs', env2) \<Rightarrow> (r, b # bs', env2)))"

definition reclaimResources :: "state \<Rightarrow> outcome" where
  "reclaimResources s =
     (case s of (dev, env) \<Rightarrow>
      case reclaim_from (mBatchResourceLists dev) env of
        (r, bs, env1) \<Rightarrow>
          ((case r of None \<Rightarrow> Inr () | Some e \<Rightarrow> Inl e),
           dev\<lparr>mBatchResourceLists := bs\<rparr>, env1))"

definition waitIdle :: "state \<Rightarrow> outcome" where
  "waitIdle s =
     (case s of (dev, env) \<Rightarrow>
      case device_waitIdle env of (r, env1) \<Rightarrow> (r, dev, env1))"

definition graphicsQueueFamily :: "VulkanGpuDevice \<Rightarrow> nat" where
  "graphicsQueueFamily dev = mGraphicsQueueFamilyIndex dev"

definition presentQueue :: "VulkanGpuDevice \<Rightarrow> Queue option" where
  "presentQueue dev = mGraphicsQueue dev"

definition device :: "VulkanGpuDevice \<Rightarrow> DeviceCreateInfo option" where
  "device dev = mDevice dev"

definition physicalDevice :: "VulkanGpuDevice \<Rightarrow> PhysicalDevice option" where
  "physicalDevice dev = mPhysicalDevice dev"

subsection \<open>Histories of a device\<close>

text \<open>
  What can happen to a constructed device and its driver: the caller submits, reclaims
  or waits (and carries on after an exception, if it catches it), the GPU finishes a
  batch, and the driver starts or stops failing calls.
\<close>

datatype event =
    Submit "GraphicsCommandList list" "GpuSemaphore list" "GraphicsPipelineStage list"
      "GpuSemaphore list"
  | Reclaim
  | WaitIdle
  | GpuSignal nat
  | Faults "(vk_api \<times> VkError) list"

fun step :: "event \<Rightarrow> state \<Rightarrow> state" where
  "step (Submit jobs ws stages ss) s = snd (submitGraphicsJobs jobs ws stages ss s)"
| "step Reclaim s = snd (reclaimResources s)"
| "step WaitIdle s = snd (waitIdle s)"
| "step (GpuSignal f) (dev, env) = (dev, gpu_signal f env)"
| "step (Faults fs) (dev, env) = (dev, env\<lparr>faults := fs\<rparr>)"

fun run :: "event list \<Rightarrow> state \<Rightarrow> state" where
  "run [] s = s"
| "run (e # es) s = run es (step e s)"

section \<open>Swapchain images\<close>

text \<open>
  \<^verbatim>\<open>VulkanSwapchainImage\<close> wraps an image handle obtained from the presentation engine.
  The state around an upload is the image together with the driver and the logger; both
  overrides only throw.
\<close>

record VulkanSwapchainImage =
  mImage :: nat

definition image_vk :: "VulkanSwapchainImage \<Rightarrow> nat" where
  "image_vk img = mImage img"

definition upload ::
  "nat list \<Rightarrow> nat \<Rightarrow> VulkanSwapchainImage \<times> environment \<Rightarrow> (exception + unit) \<times> VulkanSwapchainImage \<times> environment" where
  "upload data sz s = (Inl (RuntimeError ''Operation not supported.''), s)"

definition uploadRegion ::
  "nat list \<Rightarrow> nat \<Rightarrow> int \<times> int \<Rightarrow> nat \<times> nat \<Rightarrow> VulkanSwapchainImage \<times> environment
     \<Rightarrow> (exception + unit) \<times> VulkanSwapchainImage \<times> environment" where
  "uploadRegion buf_data buf_size tex_offset tex_size s =
     (Inl (RuntimeError ''Operation not supported.''), s)"

section \<open>Vocabulary of the properties\<close>

subsection \<open>The lines of the debug callback\<close>

definition object_line :: "level_enum \<Rightarrow> nat \<times> DebugUtilsObjectNameInfoEXT \<Rightarrow> log_entry" where
  \<open>object_line level p =
     (level, ''Object #{}: Handle {}, Type {}, Name "{}"'',
      [N (fst p), N (objectHandle (snd p)), ObjectTypeArg (objectType (snd p)),
       S (case pObjectName (snd p) of Some n \<Rightarrow> n | None \<Rightarrow> [])])\<close>

definition label_line :: "level_enum \<Rightarrow> nat \<times> DebugUtilsLabelEXT \<Rightarrow> log_entry" where
  "label_line level p =
     (level, ''Label #{}: {} {{ {}, {}, {}, {} }}'' @ [CHR 0x0A],
      [N (fst p), S (pLabelName (snd p)), F (fst (color (snd p))),
       F (fst (snd (color (snd p)))), F (fst (snd (snd (color (snd p))))),
       F (snd (snd (snd (color (snd p)))))])"

definition message_line ::
  "level_enum \<Rightarrow> DebugUtilsMessageTypeFlagBitsEXT set \<Rightarrow> DebugUtilsMessengerCallbackDataEXT
     \<Rightarrow> log_entry" where
  "message_line level message_type callback_data =
     (level, ''[Vulkan] {} [{}][ID={}]: {}'',
      [MessageTypeArg message_type,
       S (case pMessageIdName callback_data of Some n \<Rightarrow> n | None \<Rightarrow> ''<Unknown>''),
       I (messageIdNumber callback_data), S (pMessage callback_data)])"

definition label_count_line :: "DebugUtilsMessengerCallbackDataEXT \<Rightarrow> log_entry" where
  "label_count_line callback_data =
     (info, ''Command Buffer Label Count: {}'', [N (length (pCmdBufLabels callback_data))])"

subsection \<open>Selection\<close>

definition is_discrete :: "PhysicalDevice \<Rightarrow> bool" where
  "is_discrete d = (deviceType (properties d) = DiscreteGpu)"

text \<open>
  \<open>k\<close> is the lowest index of a queue family whose flags contain graphics and transfer.
\<close>

definition lowest_graphics_transfer :: "QueueFamilyProperties list \<Rightarrow> nat \<Rightarrow> bool" where
  "lowest_graphics_transfer qfs k =
     (k < length qfs \<and> {Graphics, Transfer} \<subseteq> queueFlags (qfs ! k)
      \<and> (\<forall>j<k. \<not> {Graphics, Transfer} \<subseteq> queueFlags (qfs ! j)))"

subsection \<open>Pool sizes\<close>

definition KiB :: nat where
  "KiB = 1024"

definition MiB :: nat where
  "MiB = 1024 * 1024"

text \<open>
  Modelled from the spec: the code at hand reads no configuration. "Recognized options
  at core construction: dynamic_buffer_pool_bytes: default 128 MiB;
  host_image_pool_bytes: default 128 MiB; allocator_block_bytes: default 32 KiB".
\<close>

record options =
  dynamic_buffer_pool_bytes :: nat
  host_image_pool_bytes :: nat
  allocator_block_bytes :: nat

definition default_options :: options where
  "default_options =
     \<lparr>dynamic_buffer_pool_bytes = 128 * MiB,
      host_image_pool_bytes = 128 * MiB,
      allocator_block_bytes = 32 * KiB\<rparr>"

subsection \<open>Submissions and traces\<close>

fun isVulkanCommandList :: "GraphicsCommandList \<Rightarrow> bool" where
  "isVulkanCommandList (VulkanGraphicsCommandList obj cb) = True"
| "isVulkanCommandList (ForeignGraphicsCommandList obj) = False"

fun isVulkanSemaphore :: "GpuSemaphore \<Rightarrow> bool" where
  "isVulkanSemaphore (VulkanSemaphore obj sem) = True"
| "isVulkanSemaphore (ForeignGpuSemaphore obj) = False"

text \<open>The batch that \<open>submitGraphicsJobs\<close> posts for objects of this backend.\<close>

definition submit_info_of ::
  "GraphicsCommandList list \<Rightarrow> GpuSemaphore list \<Rightarrow> GraphicsPipelineStage list
     \<Rightarrow> GpuSemaphore list \<Rightarrow> SubmitInfo" where
  "submit_info_of jobs ws stages ss =
     \<lparr>pWaitSemaphores = map (\<lambda>s. projr (semaphore s)) ws,
      pWaitDstStageMask = map PipelineStageFlags stages,
      pCommandBuffers = map (\<lambda>j. projr (commandBuffer j)) jobs,
      pSignalSemaphores = map (\<lambda>s. projr (semaphore s)) ss\<rparr>"

text \<open>
  The driver calls one batch costs a reclaim pass: its status query, and the destruction
  of its fence when the query found it signaled.
\<close>

definition status_calls :: "nat list \<Rightarrow> BatchResourceList \<Rightarrow> vk_call list" where
  "status_calls signaled b =
     (if fence b \<in> set signaled then [GetFenceStatus (fence b), DestroyFence (fence b)]
      else [GetFenceStatus (fence b)])"

definition status_queries :: "vk_call list \<Rightarrow> nat list" where
  "status_queries cs = concat (map (\<lambda>c. case c of GetFenceStatus f \<Rightarrow> [f] | _ \<Rightarrow> []) cs)"

definition submit_queues :: "vk_call list \<Rightarrow> Queue option list" where
  "submit_queues cs = concat (map (\<lambda>c. case c of QueueSubmit q _ _ \<Rightarrow> [q] | _ \<Rightarrow> []) cs)"

text \<open>Fence \<open>f\<close> is not signaled before, between or after the events of a history.\<close>

fun unsignaled_during :: "nat \<Rightarrow> event list \<Rightarrow> state \<Rightarrow> bool" where
  "unsignaled_during f [] s = (f \<notin> set (signaledFences (snd s)))"
| "unsignaled_during f (e # es) s =
     (f \<notin> set (signaledFences (snd s)) \<and> unsignaled_during f es (step e s))"

text \<open>Every outstanding batch carries a fence that was handed to a queue submission.\<close>

definition fences_submitted :: "state \<Rightarrow> bool" where
  "fences_submitted s =
     list_all (\<lambda>b. fence b \<in> set (pendingFences (snd s)) \<or> fence b \<in> set (signaledFences (snd s)))
       (mBatchResourceLists (fst s))"

subsection \<open>Concrete inputs\<close>

definition example_gpu :: PhysicalDevice where
  "example_gpu =
     \<lparr>handle = 1,
      properties = \<lparr>apiVersion = VK_API_VERSION_1_0, driverVersion = 1, vendorID = 2,
                    deviceID = 3, deviceType = DiscreteGpu, deviceName = ''GPU''\<rparr>,
      queueFamilyProperties = [\<lparr>queueFlags = {Graphics, Compute, Transfer}, queueCount = 16\<rparr>],
      presentationSupport = [0]\<rparr>"

definition example_integrated_gpu :: PhysicalDevice where
  "example_integrated_gpu =
     \<lparr>handle = 2,
      properties = \<lparr>apiVersion = VK_API_VERSION_1_0, driverVersion = 1, vendorID = 5,
                    deviceID = 6, deviceType = IntegratedGpu, deviceName = ''iGPU''\<rparr>,
      queueFamilyProperties = [\<lparr>queueFlags = {Graphics, Compute, Transfer}, queueCount = 1\<rparr>],
      presentationSupport = [0]\<rparr>"

text \<open>
  A device whose first graphics and transfer family cannot present, while its second
  one can.
\<close>

definition example_split_gpu :: PhysicalDevice where
  "example_split_gpu =
     \<lparr>handle = 3,
      properties = \<lparr>apiVersion = VK_API_VERSION_1_0, driverVersion = 1, vendorID = 2,
                    deviceID = 4, deviceType = DiscreteGpu, deviceName = ''Split''\<rparr>,
      queueFamilyProperties =
        [\<lparr>queueFlags = {Graphics, Compute, Transfer}, queueCount = 1\<rparr>,
         \<lparr>queueFlags = {Graphics, Transfer}, queueCount = 1\<rparr>],
      presentationSupport = [1]\<rparr>"

definition example_environment :: environment where
  "example_environment =
     \<lparr>instanceExtensions = [], instanceLayers = [],
      platformSurfaceExtension = ''VK_KHR_xcb_surface'',
      physicalDevices = [example_integrated_gpu, example_gpu], faults = [],
      liveFences = [], pendingFences = [], signaledFences = [], calls = [], logged = []\<rparr>"

definition example_device :: VulkanGpuDevice where
  "example_device = projr (fst (VulkanGpuDevice_ctor 0 example_environment))"

definition example_ready :: environment where
  "example_ready = snd (VulkanGpuDevice_ctor 0 example_environment)"

definition example_job :: GraphicsCommandList where
  "example_job = VulkanGraphicsCommandList 1 10"

definition example_semaphore :: GpuSemaphore where
  "example_semaphore = VulkanSemaphore 2 20"

definition example_history :: "event list" where
  "example_history = [Submit [example_job] [] [] [example_semaphore], Reclaim]"

text \<open>Two outstanding batches, the first finished by the GPU and the second not.\<close>

definition example_busy_device :: VulkanGpuDevice where
  "example_busy_device =
     (unconstructed 0)
       \<lparr>mBatchResourceLists :=
          [\<lparr>fence = 1, resources = [CommandListResource example_job]\<rparr>,
           \<lparr>fence = 2, resources = [SemaphoreResource example_semaphore]\<rparr>]\<rparr>"

definition example_busy_environment :: environment where
  "example_busy_environment =
     example_environment\<lparr>liveFences := [1, 2], pendingFences := [2], signaledFences := [1]\<rparr>"

text \<open>A validation message with no attached object and one command-buffer label.\<close>

definition example_labelled_message :: DebugUtilsMessengerCallbackDataEXT where
  "example_labelled_message =
     \<lparr>pMessageIdName = None, messageIdNumber = 0, pMessage = ''message'',
      pObjects = [],
      pCmdBufLabels = [\<lparr>pLabelName = ''label'', color = (0, 0, 0, 0)\<rparr>]\<rparr>"

section \<open>Facts about the driver\<close>

lemma LOG_fields [simp]:
  "logged (LOG l f a env) = logged env @ [(l, f, a)]"
  "calls (LOG l f a env) = calls env"
  "faults (LOG l f a env) = faults env"
  "liveFences (LOG l f a env) = liveFences env"
  "pendingFences (LOG l f a env) = pendingFences env"
  "signaledFences (LOG l f a env) = signaledFences env"
  "physicalDevices (LOG l f a env) = physicalDevices env"
  by (simp_all add: LOG_def)

lemma called_fields [simp]:
  "calls (called c env) = calls env @ [c]"
  "faults (called c env) = faults env"
  "liveFences (called c env) = liveFences env"
  "pendingFences (called c env) = pendingFences env"
  "signaledFences (called c env) = signaledFences env"
  "logged (called c env) = logged env"
  "physicalDevices (called c env) = physicalDevices env"
  by (simp_all add: called_def)

lemma destroyFence_fields [simp]:
  "calls (destroyFence f env) = calls env @ [DestroyFence f]"
  "faults (destroyFence f env) = faults env"
  "liveFences (destroyFence f env) = removeAll f (liveFences env)"
  "pendingFences (destroyFence f env) = pendingFences env"
  "signaledFences (destroyFence f env) = signaledFences env"
  "logged (destroyFence f env) = logged env"
  by (simp_all add: destroyFence_def called_def)

lemma foldr_max_ge: "x \<in> set xs \<Longrightarrow> x \<le> foldr max xs (0::nat)"
  by (induction xs) (auto simp: max_def)

lemma fresh_fence_notin:
  "fresh_fence env \<notin> set (liveFences env)"
  "fresh_fence env \<notin> set (pendingFences env)"
  "fresh_fence env \<notin> set (signaledFences env)"
proof -
  have "x < fresh_fence env"
    if "x \<in> set (liveFences env @ pendingFences env @ signaledFences env)" for x
    unfolding fresh_fence_def using foldr_max_ge [OF that] by (rule le_imp_less_Suc)
  then show "fresh_fence env \<notin> set (liveFences env)"
    "fresh_fence env \<notin> set (pendingFences env)"
    "fresh_fence env \<notin> set (signaledFences env)"
    by auto
qed

lemma removeAll_fresh: "x \<notin> set xs \<Longrightarrow> removeAll x (xs @ [x]) = xs"
  by (induction xs) auto

lemma createFenceUnique_cases:
  "createFenceUnique {} env =
     (case map_of (faults env) ApiCreateFence of
        Some e \<Rightarrow> (Inl (SystemError e), called (CreateFence {}) env)
      | None \<Rightarrow>
          (Inr (fresh_fence env),
           (called (CreateFence {}) env)\<lparr>liveFences := liveFences env @ [fresh_fence env]\<rparr>))"
  by (simp add: createFenceUnique_def vk_try_def Let_def split: option.splits)

lemma queue_submit_cases:
  "queue_submit q i f env =
     (case map_of (faults env) ApiQueueSubmit of
        Some e \<Rightarrow> (Inl (SystemError e), called (QueueSubmit q i f) env)
      | None \<Rightarrow>
          (Inr (), (called (QueueSubmit q i f) env)\<lparr>pendingFences := pendingFences env @ [f]\<rparr>))"
  by (simp add: queue_submit_def vk_try_def split: option.splits)

lemma getFenceStatus_ok:
  "map_of (faults env) ApiGetFenceStatus = None \<Longrightarrow>
   getFenceStatus f env =
     (Inr (if f \<in> set (signaledFences env) then VK_SUCCESS else VK_NOT_READY),
      called (GetFenceStatus f) env)"
  by (simp add: getFenceStatus_def)

lemma device_waitIdle_ok:
  "map_of (faults env) ApiDeviceWaitIdle = None \<Longrightarrow>
   device_waitIdle env =
     (Inr (), (called DeviceWaitIdle env)
        \<lparr>signaledFences := signaledFences env @ pendingFences env, pendingFences := []\<rparr>)"
  by (simp add: device_waitIdle_def vk_try_def)

lemma device_waitIdle_fail:
  "map_of (faults env) ApiDeviceWaitIdle = Some e \<Longrightarrow>
   device_waitIdle env = (Inl (SystemError e), called DeviceWaitIdle env)"
  by (simp add: device_waitIdle_def vk_try_def)

lemma status_queries_append [simp]:
  "status_queries (xs @ ys) = status_queries xs @ status_queries ys"
  by (simp add: status_queries_def)

lemma submit_queues_append [simp]:
  "submit_queues (xs @ ys) = submit_queues xs @ submit_queues ys"
  by (simp add: submit_queues_def)

lemma submit_queues_simps [simp]:
  "submit_queues [] = []"
  "submit_queues (QueueSubmit q i f # cs) = q # submit_queues cs"
  "\<not> (\<exists>q i f. c = QueueSubmit q i f) \<Longrightarrow> submit_queues (c # cs) = submit_queues cs"
  by (auto simp: submit_queues_def split: vk_call.splits)

lemma status_calls_queries:
  "status_queries (concat (map (status_calls sg) bs)) = map fence bs"
  by (induction bs) (simp_all add: status_calls_def status_queries_def)

lemma status_calls_queues: "submit_queues (concat (map (status_calls sg) bs)) = []"
  by (induction bs) (simp_all add: status_calls_def)

lemma status_calls_nonblocking: "DeviceWaitIdle \<notin> set (concat (map (status_calls sg) bs))"
  by (induction bs) (simp_all add: status_calls_def)

text \<open>The definitions a concrete input is evaluated with.\<close>

lemmas driver_defs =
  vk_try_def called_def LOG_def createFenceUnique_def destroyFence_def queue_submit_def
  getFenceStatus_def device_waitIdle_def gpu_signal_def fresh_fence_def

lemmas init_defs =
  VulkanGpuDevice_ctor_def and_then_def createInstance_def createDebugReport_def
  selectPhysicalDevice_def createDeviceAndQueues_def createMemoryPools_def unconstructed_def
  selectQueue_def matchAllFlags_def checkQueuePresentationCapacity_def
  make_BitmapBufferPool_def make_BitmapImagePool_def addPlatformSurfaceExtension_def
  getQueue_def Let_def

lemmas example_defs =
  example_environment_def example_gpu_def example_integrated_gpu_def example_split_gpu_def
  example_job_def example_semaphore_def example_busy_device_def
  example_busy_environment_def example_labelled_message_def

section \<open>The debug callback\<close>

lemma log_objects_eq:
  "log_objects level i objs env =
     env\<lparr>logged := logged env @ map (object_line level) (enumerate i objs)\<rparr>"
  by (induction objs arbitrary: i env) (simp_all add: LOG_def object_line_def)

lemma log_labels_eq:
  "log_labels level i ls env =
     env\<lparr>logged := logged env @ map (label_line level) (enumerate i ls)\<rparr>"
  by (induction ls arbitrary: i env)
     (simp_all add: LOG_def label_line_def split: prod.splits)

lemma debugMessengerCallback_eq:
  "debugMessengerCallback sev ty cd env =
     (False,
      env\<lparr>logged := logged env
         @ [message_line (severity_level sev) ty cd]
         @ map (object_line (severity_level sev)) (enumerate 0 (pObjects cd))
         @ (if pCmdBufLabels cd = [] then []
            else label_count_line cd
                 # map (label_line (severity_level sev)) (enumerate 0 (pCmdBufLabels cd)))\<rparr>)"
  by (simp add: debugMessengerCallback_def Let_def log_objects_eq log_labels_eq LOG_def
      message_line_def label_count_line_def)

text \<open>
  C6, as the code has it. For every message, with any severity bits, the callback
  returns false and hands the logger, in this order: one line for the message, at the
  level its severity maps to; one line for each attached object, at that level; and,
  only when the message carries at least one command-buffer label, one line at level
  info with the number of labels, followed by one line for each label at the mapped
  level. The level is debug for verbose, info for info, warn for warning and err for
  error.
\<close>

theorem debug_callback_lines:
  "debugMessengerCallback sev ty cd env =
     (False,
      env\<lparr>logged := logged env
         @ [message_line (severity_level sev) ty cd]
         @ map (object_line (severity_level sev)) (enumerate 0 (pObjects cd))
         @ (if pCmdBufLabels cd = [] then []
            else label_count_line cd
                 # map (label_line (severity_level sev)) (enumerate 0 (pCmdBufLabels cd)))\<rparr>)
   \<and> length (logged (snd (debugMessengerCallback sev ty cd env)))
       = length (logged env) + 1 + length (pObjects cd)
         + (if pCmdBufLabels cd = [] then 0 else 1 + length (pCmdBufLabels cd))
   \<and> fst (debugMessengerCallbackDispatcher severity_bit ty cd env) = False
   \<and> severity_level {Verbose} = debug \<and> severity_level {Info} = info
   \<and> severity_level {Warning} = warn \<and> severity_level {Error} = err"
  by (simp add: debugMessengerCallback_eq debugMessengerCallbackDispatcher_def
      severity_level_def)

theorem debug_callback_lines_witness:
  "logged (snd (debugMessengerCallback {Warning} {Validation} example_labelled_message
                  example_environment))
     = [message_line warn {Validation} example_labelled_message,
        label_count_line example_labelled_message,
        label_line warn (0, \<lparr>pLabelName = ''label'', color = (0, 0, 0, 0)\<rparr>)]"
  using debug_callback_lines [of "{Warning}" "{Validation}" example_labelled_message
      example_environment Warning]
  by (simp add: example_labelled_message_def example_environment_def severity_level_def)

text \<open>
  C6, as the claim states it, fails: for a message with no attached object and one
  command-buffer label the claim counts two lines (one for the message, one for the
  label), and the callback emits three.
\<close>

theorem debug_callback_counterexample:
  "length (logged (snd (debugMessengerCallback {Warning} {Validation} example_labelled_message
                          example_environment)))
     \<noteq> length (logged example_environment) + 1
         + length (pObjects example_labelled_message)
         + length (pCmdBufLabels example_labelled_message)"
  by (simp add: debugMessengerCallback_eq example_labelled_message_def
      example_environment_def)

section \<open>Swapchain images cannot be uploaded to\<close>

text \<open>
  C8. Every call of \<open>upload\<close> or \<open>uploadRegion\<close> on a swapchain image, whatever the data,
  size, offset and extent, throws the "Operation not supported." runtime error at once:
  the image is as it was, no driver call is made and nothing is logged.
\<close>

theorem swapchain_upload_unsupported:
  "upload data sz (img, env) = (Inl (RuntimeError ''Operation not supported.''), img, env)
   \<and> uploadRegion buf_data buf_size tex_offset tex_size (img, env)
       = (Inl (RuntimeError ''Operation not supported.''), img, env)"
  by (simp add: upload_def uploadRegion_def)

section \<open>Submission\<close>

lemma jobs_cast:
  "list_all isVulkanCommandList jobs \<Longrightarrow>
     transformObjects commandBuffer jobs = Inr (map (\<lambda>j. projr (commandBuffer j)) jobs)
     \<and> transformObjects job_resource jobs = Inr (map CommandListResource jobs)"
proof (induction jobs)
  case Nil
  then show ?case by simp
next
  case (Cons j jobs)
  then show ?case by (cases j) auto
qed

lemma semaphores_cast:
  "list_all isVulkanSemaphore sems \<Longrightarrow>
     transformObjects semaphore sems = Inr (map (\<lambda>s. projr (semaphore s)) sems)
     \<and> transformObjects semaphore_resource sems = Inr (map SemaphoreResource sems)"
proof (induction sems)
  case Nil
  then show ?case by simp
next
  case (Cons s sems)
  then show ?case by (cases s) auto
qed

lemma jobs_cast_conv:
  "transformObjects commandBuffer jobs = Inr cbs \<Longrightarrow> list_all isVulkanCommandList jobs"
proof (induction jobs arbitrary: cbs)
  case Nil
  then show ?case by simp
next
  case (Cons j jobs)
  then show ?case by (cases j) (auto split: sum.splits)
qed

lemma semaphores_cast_conv:
  "transformObjects semaphore sems = Inr hs \<Longrightarrow> list_all isVulkanSemaphore sems"
proof (induction sems arbitrary: hs)
  case Nil
  then show ?case by simp
next
  case (Cons s sems)
  then show ?case by (cases s) (auto split: sum.splits)
qed

lemma submit_failure:
  assumes "list_all isVulkanCommandList jobs"
    and "list_all isVulkanSemaphore ws" and "list_all isVulkanSemaphore ss"
    and "map_of (faults env) ApiCreateFence = None"
    and "map_of (faults env) ApiQueueSubmit = Some e"
  shows "submitGraphicsJobs jobs ws stages ss (dev, env) =
     (Inl (SystemError e), dev,
      env\<lparr>calls := calls env @
        [CreateFence {},
         QueueSubmit (mGraphicsQueue dev) (submit_info_of jobs ws stages ss) (fresh_fence env),
         DestroyFence (fresh_fence env)]\<rparr>)"
  using assms jobs_cast [of jobs] semaphores_cast [of ws] semaphores_cast [of ss]
    fresh_fence_notin(1) [of env]
  by (simp add: submitGraphicsJobs_def createFenceUnique_def queue_submit_def vk_try_def
      destroyFence_def called_def submit_info_of_def Let_def removeAll_fresh)

lemma submit_success:
  assumes "list_all isVulkanCommandList jobs"
    and "list_all isVulkanSemaphore ws" and "list_all isVulkanSemaphore ss"
    and "map_of (faults env) ApiCreateFence = None"
    and "map_of (faults env) ApiQueueSubmit = None"
  shows "submitGraphicsJobs jobs ws stages ss (dev, env) =
     (Inr (),
      dev\<lparr>mBatchResourceLists := mBatchResourceLists dev @
         [\<lparr>fence = fresh_fence env,
           resources = map CommandListResource jobs @ map SemaphoreResource ws
              @ map SemaphoreResource ss\<rparr>]\<rparr>,
      env\<lparr>calls := calls env @
        [CreateFence {},
         QueueSubmit (mGraphicsQueue dev) (submit_info_of jobs ws stages ss) (fresh_fence env)],
        liveFences := liveFences env @ [fresh_fence env],
        pendingFences := pendingFences env @ [fresh_fence env]\<rparr>)"
  using assms jobs_cast [of jobs] semaphores_cast [of ws] semaphores_cast [of ss]
  by (simp add: submitGraphicsJobs_def createFenceUnique_def queue_submit_def vk_try_def
      called_def submit_info_of_def Let_def)

text \<open>
  The call returns exactly when every object is of this backend and the driver accepts
  both the fence creation and the submission.
\<close>

lemma submit_returns_iff:
  "fst (submitGraphicsJobs jobs ws stages ss (dev, env)) = Inr () \<longleftrightarrow>
     list_all isVulkanCommandList jobs \<and> list_all isVulkanSemaphore ws
     \<and> list_all isVulkanSemaphore ss \<and> map_of (faults env) ApiCreateFence = None
     \<and> map_of (faults env) ApiQueueSubmit = None"
  (is "?l \<longleftrightarrow> ?r")
proof
  assume ?r
  then show ?l using submit_success [of jobs ws ss env stages dev] by simp
next
  assume l: ?l
  show ?r
  proof (cases "transformObjects commandBuffer jobs")
    case (Inl a)
    with l show ?thesis by (simp add: submitGraphicsJobs_def)
  next
    case j: (Inr cbs)
    show ?thesis
    proof (cases "transformObjects semaphore ws")
      case (Inl a)
      with l j show ?thesis by (simp add: submitGraphicsJobs_def)
    next
      case w: (Inr hs)
      show ?thesis
      proof (cases "transformObjects semaphore ss")
        case (Inl a)
        with l j w show ?thesis by (simp add: submitGraphicsJobs_def)
      next
        case s: (Inr hs')
        have A: "list_all isVulkanCommandList jobs" "list_all isVulkanSemaphore ws"
          "list_all isVulkanSemaphore ss"
          using j w s jobs_cast_conv semaphores_cast_conv by blast+
        show ?thesis
        proof (cases "map_of (faults env) ApiCreateFence")
          case (Some e)
          with l j w s show ?thesis
            by (simp add: submitGraphicsJobs_def createFenceUnique_def vk_try_def)
        next
          case cf: None
          show ?thesis
          proof (cases "map_of (faults env) ApiQueueSubmit")
            case None
            with A cf show ?thesis by simp
          next
            case (Some e)
            with l submit_failure [OF A cf Some, of stages dev] show ?thesis by simp
          qed
        qed
      qed
    qed
  qed
qed

lemma submit_props:
  assumes "submitGraphicsJobs jobs ws stages ss (dev, env) = (r, dev', env')"
  shows "set (mBatchResourceLists dev) \<subseteq> set (mBatchResourceLists dev')"
    and "signaledFences env' = signaledFences env"
    and "set (pendingFences env) \<subseteq> set (pendingFences env')"
    and "set (liveFences env) \<subseteq> set (liveFences env')"
    and "mGraphicsQueue dev' = mGraphicsQueue dev"
    and "mGraphicsQueueFamilyIndex dev' = mGraphicsQueueFamilyIndex dev"
    and "\<And>b. b \<in> set (mBatchResourceLists dev') \<Longrightarrow>
           b \<in> set (mBatchResourceLists dev) \<or> fence b \<in> set (pendingFences env')"
    and "set (submit_queues (calls env'))
           \<subseteq> set (submit_queues (calls env)) \<union> {mGraphicsQueue dev}"
  using assms fresh_fence_notin(1) [of env]
  by (auto simp: submitGraphicsJobs_def createFenceUnique_cases queue_submit_cases Let_def
      split: sum.splits option.splits)

section \<open>Reclaim\<close>

lemma reclaim_from_ok:
  "map_of (faults env) ApiGetFenceStatus = None \<Longrightarrow>
   reclaim_from bs env =
     (None, filter (\<lambda>b. fence b \<notin> set (signaledFences env)) bs,
      env\<lparr>calls := calls env @ concat (map (status_calls (signaledFences env)) bs),
          liveFences :=
            filter (\<lambda>f. \<not> (f \<in> set (signaledFences env) \<and> f \<in> fence ` set bs))
              (liveFences env)\<rparr>)"
proof (induction bs arbitrary: env)
  case Nil
  then show ?case by simp
next
  case (Cons b bs)
  show ?case
  proof (cases "fence b \<in> set (signaledFences env)")
    case True
    have flt: "filter (\<lambda>x. fence b \<noteq> x \<and>
                  (x \<in> set (signaledFences env) \<longrightarrow> x \<notin> fence ` set bs)) (liveFences env)
        = filter (\<lambda>f. f \<in> set (signaledFences env) \<longrightarrow> f \<noteq> fence b \<and> f \<notin> fence ` set bs)
            (liveFences env)"
      using True by (intro filter_cong) auto
    have "reclaim_from (b # bs) env
        = reclaim_from bs (destroyFence (fence b) (called (GetFenceStatus (fence b)) env))"
      using True Cons.prems by (simp add: getFenceStatus_ok)
    also have "\<dots> = (None, filter (\<lambda>b. fence b \<notin> set (signaledFences env)) (b # bs),
      env\<lparr>calls := calls env @ concat (map (status_calls (signaledFences env)) (b # bs)),
          liveFences :=
            filter (\<lambda>f. \<not> (f \<in> set (signaledFences env) \<and> f \<in> fence ` set (b # bs)))
              (liveFences env)\<rparr>)"
      using True Cons.prems
      by (subst Cons.IH)
         (simp_all add: status_calls_def destroyFence_def called_def
            removeAll_filter_not_eq flt)
    finally show ?thesis .
  next
    case False
    have flt: "filter (\<lambda>f. f \<in> set (signaledFences env) \<longrightarrow> f \<notin> fence ` set bs)
                 (liveFences env)
        = filter (\<lambda>f. f \<in> set (signaledFences env) \<longrightarrow> f \<noteq> fence b \<and> f \<notin> fence ` set bs)
            (liveFences env)"
      using False by (intro filter_cong) auto
    show ?thesis
      using False Cons.prems Cons.IH [of "called (GetFenceStatus (fence b)) env"]
      by (simp add: getFenceStatus_ok status_calls_def called_def flt)
  qed
qed

lemma reclaim_from_fail:
  "map_of (faults env) ApiGetFenceStatus = Some e \<Longrightarrow>
   reclaim_from (b # bs) env
     = (Some (SystemError e), b # bs, called (GetFenceStatus (fence b)) env)"
  by (simp add: getFenceStatus_def)

lemma reclaim_from_cases:
  "(\<exists>e. map_of (faults env) ApiGetFenceStatus = Some e \<and> bs \<noteq> [] \<and>
        reclaim_from bs env
          = (Some (SystemError e), bs, called (GetFenceStatus (fence (hd bs))) env))
   \<or> reclaim_from bs env =
     (None, filter (\<lambda>b. fence b \<notin> set (signaledFences env)) bs,
      env\<lparr>calls := calls env @ concat (map (status_calls (signaledFences env)) bs),
          liveFences :=
            filter (\<lambda>f. \<not> (f \<in> set (signaledFences env) \<and> f \<in> fence ` set bs))
              (liveFences env)\<rparr>)"
proof (cases "map_of (faults env) ApiGetFenceStatus")
  case None
  then show ?thesis using reclaim_from_ok by blast
next
  case (Some e)
  show ?thesis
  proof (cases bs)
    case Nil
    then show ?thesis by simp
  next
    case (Cons b bs')
    then show ?thesis using Some reclaim_from_fail [OF Some, of b bs'] by simp
  qed
qed

lemma reclaimResources_props:
  assumes "reclaimResources (dev, env) = (r, dev', env')"
  shows "set (mBatchResourceLists dev') \<subseteq> set (mBatchResourceLists dev)"
    and "signaledFences env' = signaledFences env"
    and "pendingFences env' = pendingFences env"
    and "mGraphicsQueue dev' = mGraphicsQueue dev"
    and "mGraphicsQueueFamilyIndex dev' = mGraphicsQueueFamilyIndex dev"
    and "\<And>b. b \<in> set (mBatchResourceLists dev) \<Longrightarrow> fence b \<notin> set (signaledFences env)
            \<Longrightarrow> b \<in> set (mBatchResourceLists dev')"
    and "\<And>f. f \<in> set (liveFences env) \<Longrightarrow> f \<notin> set (signaledFences env)
            \<Longrightarrow> f \<in> set (liveFences env')"
    and "submit_queues (calls env') = submit_queues (calls env)"
  using assms reclaim_from_cases [of env "mBatchResourceLists dev"]
  by (auto simp: reclaimResources_def status_calls_queues split: prod.splits)

lemma reclaimResources_empty:
  "mBatchResourceLists dev = [] \<Longrightarrow> reclaimResources (dev, env) = (Inr (), dev, env)"
  by (simp add: reclaimResources_def)

lemma reclaim_repeat_empty:
  "mBatchResourceLists dev = [] \<Longrightarrow>
     ((\<lambda>s. snd (reclaimResources s)) ^^ n) (dev, env) = (dev, env)"
  by (induction n) (simp_all add: reclaimResources_empty)

text \<open>
  C3. Whenever the driver answers the status queries, \<open>reclaimResources\<close> returns after
  one pass over the outstanding batches in submission order: it asks for the status of
  each batch's fence exactly once and in that order, makes no waiting call, erases
  exactly the batches whose fence is reported signaled (destroying their fences), and
  keeps the others in their order. On a device with no outstanding batch a call does
  nothing, whatever the driver's state, and so does any number of repeated calls. (When
  the driver fails the status query instead of answering it, the binding throws at the
  first batch: no status is reported and no batch is erased.)
\<close>

theorem reclaim_single_pass:
  "(map_of (faults env) ApiGetFenceStatus = None \<longrightarrow>
      reclaimResources (dev, env) =
        (Inr (),
         dev\<lparr>mBatchResourceLists :=
               filter (\<lambda>b. fence b \<notin> set (signaledFences env)) (mBatchResourceLists dev)\<rparr>,
         env\<lparr>calls := calls env
                 @ concat (map (status_calls (signaledFences env)) (mBatchResourceLists dev)),
             liveFences :=
               filter (\<lambda>f. \<not> (f \<in> set (signaledFences env)
                             \<and> f \<in> fence ` set (mBatchResourceLists dev)))
                 (liveFences env)\<rparr>)
      \<and> status_queries
            (concat (map (status_calls (signaledFences env)) (mBatchResourceLists dev)))
          = map fence (mBatchResourceLists dev)
      \<and> DeviceWaitIdle
          \<notin> set (concat (map (status_calls (signaledFences env)) (mBatchResourceLists dev))))
   \<and> (mBatchResourceLists dev = [] \<longrightarrow>
        reclaimResources (dev, env) = (Inr (), dev, env)
        \<and> ((\<lambda>s. snd (reclaimResources s)) ^^ n) (dev, env) = (dev, env))
   \<and> (\<forall>e. map_of (faults env) ApiGetFenceStatus = Some e
          \<and> mBatchResourceLists dev \<noteq> [] \<longrightarrow>
        reclaimResources (dev, env) =
          (Inl (SystemError e), dev,
           called (GetFenceStatus (fence (hd (mBatchResourceLists dev)))) env))"
proof (intro conjI impI allI)
  fix e
  assume "map_of (faults env) ApiGetFenceStatus = Some e \<and> mBatchResourceLists dev \<noteq> []"
  then obtain b bs where f: "map_of (faults env) ApiGetFenceStatus = Some e"
    and l: "mBatchResourceLists dev = b # bs"
    by (cases "mBatchResourceLists dev") auto
  from reclaim_from_fail [OF f, of b bs] l
  have "reclaimResources (dev, env) =
      (Inl (SystemError e), dev\<lparr>mBatchResourceLists := mBatchResourceLists dev\<rparr>,
       called (GetFenceStatus (fence b)) env)"
    by (simp add: reclaimResources_def)
  with l show "reclaimResources (dev, env) =
          (Inl (SystemError e), dev,
           called (GetFenceStatus (fence (hd (mBatchResourceLists dev)))) env)"
    by simp
next
  assume "map_of (faults env) ApiGetFenceStatus = None"
  then show "reclaimResources (dev, env) =
        (Inr (),
         dev\<lparr>mBatchResourceLists :=
               filter (\<lambda>b. fence b \<notin> set (signaledFences env)) (mBatchResourceLists dev)\<rparr>,
         env\<lparr>calls := calls env
                 @ concat (map (status_calls (signaledFences env)) (mBatchResourceLists dev)),
             liveFences :=
               filter (\<lambda>f. \<not> (f \<in> set (signaledFences env)
                             \<and> f \<in> fence ` set (mBatchResourceLists dev)))
                 (liveFences env)\<rparr>)"
    by (simp add: reclaimResources_def reclaim_from_ok)
next
  show "status_queries
            (concat (map (status_calls (signaledFences env)) (mBatchResourceLists dev)))
          = map fence (mBatchResourceLists dev)"
    by (rule status_calls_queries)
next
  show "DeviceWaitIdle
          \<notin> set (concat (map (status_calls (signaledFences env)) (mBatchResourceLists dev)))"
    by (rule status_calls_nonblocking)
next
  assume "mBatchResourceLists dev = []"
  then show "reclaimResources (dev, env) = (Inr (), dev, env)"
    by (rule reclaimResources_empty)
next
  assume "mBatchResourceLists dev = []"
  then show "((\<lambda>s. snd (reclaimResources s)) ^^ n) (dev, env) = (dev, env)"
    by (rule reclaim_repeat_empty)
qed

theorem reclaim_single_pass_witness:
  "mBatchResourceLists
     (fst (snd (reclaimResources (example_busy_device, example_busy_environment))))
     = [\<lparr>fence = 2, resources = [SemaphoreResource example_semaphore]\<rparr>]
   \<and> calls (snd (snd (reclaimResources (example_busy_device, example_busy_environment))))
     = [GetFenceStatus 1, DestroyFence 1, GetFenceStatus 2]
   \<and> ((\<lambda>s. snd (reclaimResources s)) ^^ 3) (unconstructed 0, example_busy_environment)
     = (unconstructed 0, example_busy_environment)"
  using reclaim_single_pass [of example_busy_environment example_busy_device]
    reclaim_single_pass [of example_busy_environment "unconstructed 0" 3]
  by (simp add: example_busy_device_def example_busy_environment_def example_environment_def
      unconstructed_def status_calls_def)

section \<open>Histories\<close>

lemma waitIdle_props:
  assumes "waitIdle (dev, env) = (r, dev', env')"
  shows "dev' = dev"
    and "set (pendingFences env) \<union> set (signaledFences env)
           \<subseteq> set (signaledFences env') \<union> set (pendingFences env')"
    and "liveFences env' = liveFences env"
    and "submit_queues (calls env') = submit_queues (calls env)"
  using assms
  by (auto simp: waitIdle_def device_waitIdle_def vk_try_def split: option.splits prod.splits)

text \<open>
  A batch whose fence is live and not signaled survives every event, and its fence stays
  live: only a reclaim pass erases batches, and only those reported signaled; a new
  fence is different from every live one.
\<close>

lemma step_retains:
  assumes "b \<in> set (mBatchResourceLists (fst s))"
    and "fence b \<in> set (liveFences (snd s))"
    and "fence b \<notin> set (signaledFences (snd s))"
  shows "b \<in> set (mBatchResourceLists (fst (step e s)))
         \<and> fence b \<in> set (liveFences (snd (step e s)))"
proof (cases s)
  case (Pair dev env)
  show ?thesis
  proof (cases e)
    case (Submit jobs ws stages ss)
    obtain r dev' env' where *: "submitGraphicsJobs jobs ws stages ss (dev, env) = (r, dev', env')"
      by (metis prod_cases3)
    from submit_props(1,4) [OF *] * assms Pair Submit show ?thesis by auto
  next
    case Reclaim
    obtain r dev' env' where *: "reclaimResources (dev, env) = (r, dev', env')"
      by (metis prod_cases3)
    from reclaimResources_props(6,7) [OF *] * assms Pair Reclaim show ?thesis by auto
  next
    case WaitIdle
    obtain r dev' env' where *: "waitIdle (dev, env) = (r, dev', env')"
      by (metis prod_cases3)
    from waitIdle_props(1,3) [OF *] * assms Pair WaitIdle show ?thesis by auto
  next
    case (GpuSignal f)
    with assms Pair show ?thesis by (auto simp: gpu_signal_def)
  next
    case (Faults fs)
    with assms Pair show ?thesis by auto
  qed
qed

lemma run_retains:
  "b \<in> set (mBatchResourceLists (fst s)) \<Longrightarrow> fence b \<in> set (liveFences (snd s))
   \<Longrightarrow> unsignaled_during (fence b) evs s
   \<Longrightarrow> b \<in> set (mBatchResourceLists (fst (run evs s)))"
proof (induction evs arbitrary: s)
  case Nil
  then show ?case by simp
next
  case (Cons e evs)
  from Cons.prems have u: "fence b \<notin> set (signaledFences (snd s))"
    and u': "unsignaled_during (fence b) evs (step e s)"
    by simp_all
  from step_retains [OF Cons.prems(1,2) u, of e] Cons.IH [OF _ _ u'] show ?case by simp
qed

lemma step_fences_submitted:
  assumes "fences_submitted s"
  shows "fences_submitted (step e s)"
proof (cases s)
  case (Pair dev env)
  show ?thesis
  proof (cases e)
    case (Submit jobs ws stages ss)
    obtain r dev' env' where *: "submitGraphicsJobs jobs ws stages ss (dev, env) = (r, dev', env')"
      by (metis prod_cases3)
    from submit_props(2,3) [OF *] submit_props(7) [OF *] * assms Pair Submit show ?thesis
      unfolding fences_submitted_def list_all_iff by (simp, blast)
  next
    case Reclaim
    obtain r dev' env' where *: "reclaimResources (dev, env) = (r, dev', env')"
      by (metis prod_cases3)
    from reclaimResources_props(1,2,3) [OF *] * assms Pair Reclaim show ?thesis
      by (auto simp: fences_submitted_def list_all_iff)
  next
    case WaitIdle
    obtain r dev' env' where *: "waitIdle (dev, env) = (r, dev', env')"
      by (metis prod_cases3)
    from waitIdle_props(1,2) [OF *] * assms Pair WaitIdle show ?thesis
      by (auto simp: fences_submitted_def list_all_iff)
  next
    case (GpuSignal f)
    with assms Pair show ?thesis
      by (auto simp: gpu_signal_def fences_submitted_def list_all_iff)
  next
    case (Faults fs)
    with assms Pair show ?thesis by (auto simp: fences_submitted_def list_all_iff)
  qed
qed

lemma run_fences_submitted: "fences_submitted s \<Longrightarrow> fences_submitted (run evs s)"
  by (induction evs arbitrary: s) (simp_all add: step_fences_submitted)

lemma step_queue:
  "mGraphicsQueue (fst (step e s)) = mGraphicsQueue (fst s)
   \<and> mGraphicsQueueFamilyIndex (fst (step e s)) = mGraphicsQueueFamilyIndex (fst s)
   \<and> set (submit_queues (calls (snd (step e s))))
       \<subseteq> set (submit_queues (calls (snd s))) \<union> {mGraphicsQueue (fst s)}"
proof (cases s)
  case (Pair dev env)
  show ?thesis
  proof (cases e)
    case (Submit jobs ws stages ss)
    obtain r dev' env' where *: "submitGraphicsJobs jobs ws stages ss (dev, env) = (r, dev', env')"
      by (metis prod_cases3)
    from submit_props(5,6,8) [OF *] * Pair Submit show ?thesis by auto
  next
    case Reclaim
    obtain r dev' env' where *: "reclaimResources (dev, env) = (r, dev', env')"
      by (metis prod_cases3)
    from reclaimResources_props(4,5,8) [OF *] * Pair Reclaim show ?thesis by auto
  next
    case WaitIdle
    obtain r dev' env' where *: "waitIdle (dev, env) = (r, dev', env')"
      by (metis prod_cases3)
    from waitIdle_props(1,4) [OF *] * Pair WaitIdle show ?thesis by auto
  next
    case (GpuSignal f)
    with Pair show ?thesis by (auto simp: gpu_signal_def)
  next
    case (Faults fs)
    with Pair show ?thesis by auto
  qed
qed

lemma run_queue:
  "mGraphicsQueue (fst (run evs s)) = mGraphicsQueue (fst s)
   \<and> mGraphicsQueueFamilyIndex (fst (run evs s)) = mGraphicsQueueFamilyIndex (fst s)
   \<and> set (submit_queues (calls (snd (run evs s))))
       \<subseteq> set (submit_queues (calls (snd s))) \<union> {mGraphicsQueue (fst s)}"
proof (induction evs arbitrary: s)
  case Nil
  then show ?case by auto
next
  case (Cons e evs)
  from Cons.IH [of "step e s"] step_queue [of e s] show ?case by auto
qed

section \<open>What a submission retains\<close>

text \<open>
  C1. When \<open>submitGraphicsJobs\<close> returns, the outstanding list is the old list with one
  new batch at its end. That batch holds a strong reference to every command list of
  \<open>jobs\<close> and to every semaphore of the wait and signal lists, together with a fence that
  this call created: the fence was not live before the call, is live after it, was
  created without the signaled flag and is not signaled when the call returns. The batch,
  and so each of its references, stays in the outstanding list through every later
  history of submissions, reclaim passes, waits and GPU progress during which the fence
  is not signaled. The references are the device's own, so what the caller does with its
  pointers does not matter.
\<close>

theorem submit_retains_resources:
  assumes "submitGraphicsJobs jobs ws stages ss (dev, env) = (Inr (), dev', env')"
  shows "mBatchResourceLists dev' = mBatchResourceLists dev @
           [\<lparr>fence = fresh_fence env,
             resources = map CommandListResource jobs @ map SemaphoreResource ws
               @ map SemaphoreResource ss\<rparr>]
     \<and> (\<forall>j\<in>set jobs.
           CommandListResource j \<in> set (resources (last (mBatchResourceLists dev'))))
     \<and> (\<forall>s\<in>set ws \<union> set ss.
           SemaphoreResource s \<in> set (resources (last (mBatchResourceLists dev'))))
     \<and> fresh_fence env \<notin> set (liveFences env)
     \<and> fresh_fence env \<in> set (liveFences env')
     \<and> fresh_fence env \<notin> set (signaledFences env')
     \<and> calls env' = calls env @
           [CreateFence {},
            QueueSubmit (mGraphicsQueue dev) (submit_info_of jobs ws stages ss)
              (fresh_fence env)]
     \<and> (\<forall>evs. unsignaled_during (fresh_fence env) evs (dev', env') \<longrightarrow>
           last (mBatchResourceLists dev')
             \<in> set (mBatchResourceLists (fst (run evs (dev', env')))))"
proof -
  let ?b = "\<lparr>fence = fresh_fence env,
             resources = map CommandListResource jobs @ map SemaphoreResource ws
               @ map SemaphoreResource ss\<rparr>"
  from assms have "fst (submitGraphicsJobs jobs ws stages ss (dev, env)) = Inr ()"
    by simp
  then have ok: "list_all isVulkanCommandList jobs" "list_all isVulkanSemaphore ws"
    "list_all isVulkanSemaphore ss" "map_of (faults env) ApiCreateFence = None"
    "map_of (faults env) ApiQueueSubmit = None"
    by (simp_all add: submit_returns_iff)
  from submit_success [OF ok, of stages dev] assms
  have dev': "dev' = dev\<lparr>mBatchResourceLists := mBatchResourceLists dev @ [?b]\<rparr>"
    and env': "env' = env\<lparr>calls := calls env @
        [CreateFence {},
         QueueSubmit (mGraphicsQueue dev) (submit_info_of jobs ws stages ss) (fresh_fence env)],
        liveFences := liveFences env @ [fresh_fence env],
        pendingFences := pendingFences env @ [fresh_fence env]\<rparr>"
    by simp_all
  have last: "last (mBatchResourceLists dev') = ?b"
    using dev' by simp
  have kept: "last (mBatchResourceLists dev')
      \<in> set (mBatchResourceLists (fst (run evs (dev', env'))))"
    if "unsignaled_during (fresh_fence env) evs (dev', env')" for evs
  proof (rule run_retains)
    show "last (mBatchResourceLists dev') \<in> set (mBatchResourceLists (fst (dev', env')))"
      using dev' by simp
    show "fence (last (mBatchResourceLists dev')) \<in> set (liveFences (snd (dev', env')))"
      using last env' by simp
    show "unsignaled_during (fence (last (mBatchResourceLists dev'))) evs (dev', env')"
      using that last by simp
  qed
  show ?thesis
    using dev' env' last kept fresh_fence_notin [of env] by auto
qed

theorem submit_retains_resources_witness:
  "CommandListResource example_job
     \<in> set (resources (last (mBatchResourceLists
         (fst (snd (submitGraphicsJobs [example_job] [] [] [example_semaphore]
                      (example_busy_device, example_busy_environment)))))))
   \<and> fence (last (mBatchResourceLists
         (fst (snd (submitGraphicsJobs [example_job] [] [] [example_semaphore]
                      (example_busy_device, example_busy_environment)))))) = 3
   \<and> \<lparr>fence = 3,
       resources = [CommandListResource example_job, SemaphoreResource example_semaphore]\<rparr>
     \<in> set (mBatchResourceLists
         (fst (run [Reclaim, GpuSignal 2, Reclaim]
            (snd (submitGraphicsJobs [example_job] [] [] [example_semaphore]
                    (example_busy_device, example_busy_environment))))))"
proof -
  let ?r = "submitGraphicsJobs [example_job] [] [] [example_semaphore]
              (example_busy_device, example_busy_environment)"
  have "fst ?r = Inr ()"
    by (simp add: submit_returns_iff example_defs)
  then have r: "?r = (Inr (), fst (snd ?r), snd (snd ?r))"
    by (metis prod.collapse)
  have u: "unsignaled_during 3 [Reclaim, GpuSignal 2, Reclaim] (fst (snd ?r), snd (snd ?r))"
    by (simp add: example_defs submitGraphicsJobs_def reclaimResources_def driver_defs
        unconstructed_def)
  note T = submit_retains_resources [OF r]
  have f: "fresh_fence example_busy_environment = 3"
    by (simp add: example_defs fresh_fence_def)
  have l: "mBatchResourceLists (fst (snd ?r)) = mBatchResourceLists example_busy_device @
      [\<lparr>fence = 3,
        resources = [CommandListResource example_job, SemaphoreResource example_semaphore]\<rparr>]"
    using T f by simp
  have "\<forall>evs. unsignaled_during (fresh_fence example_busy_environment) evs
            (fst (snd ?r), snd (snd ?r)) \<longrightarrow>
          last (mBatchResourceLists (fst (snd ?r)))
            \<in> set (mBatchResourceLists (fst (run evs (fst (snd ?r), snd (snd ?r)))))"
    using T by blast
  with u f have "last (mBatchResourceLists (fst (snd ?r)))
      \<in> set (mBatchResourceLists
          (fst (run [Reclaim, GpuSignal 2, Reclaim] (fst (snd ?r), snd (snd ?r)))))"
    by metis
  with l show ?thesis by simp
qed

section \<open>A submission the driver rejects\<close>

text \<open>
  C2. When the objects handed in are of this backend and the fence has been created, a
  failure reported by the driver for the queue submission makes \<open>submitGraphicsJobs\<close>
  throw the driver's error. The fence created for the batch is destroyed on the way out,
  after the failed submission; the device, and with it the outstanding list, is as it
  was before the call, and so is the driver except for the three calls made.
\<close>

theorem submit_failure_unwinds:
  assumes "list_all isVulkanCommandList jobs"
    and "list_all isVulkanSemaphore ws" and "list_all isVulkanSemaphore ss"
    and "map_of (faults env) ApiCreateFence = None"
    and "map_of (faults env) ApiQueueSubmit = Some e"
  shows "submitGraphicsJobs jobs ws stages ss (dev, env) =
     (Inl (SystemError e), dev,
      env\<lparr>calls := calls env @
        [CreateFence {},
         QueueSubmit (mGraphicsQueue dev) (submit_info_of jobs ws stages ss) (fresh_fence env),
         DestroyFence (fresh_fence env)]\<rparr>)
     \<and> mBatchResourceLists (fst (snd (submitGraphicsJobs jobs ws stages ss (dev, env))))
         = mBatchResourceLists dev
     \<and> fresh_fence env
         \<notin> set (liveFences (snd (snd (submitGraphicsJobs jobs ws stages ss (dev, env)))))"
  using submit_failure [OF assms, of stages dev] fresh_fence_notin(1) [of env]
  by simp

theorem submit_failure_unwinds_witness:
  "submitGraphicsJobs [example_job] [] [] [example_semaphore]
     (example_busy_device, example_busy_environment\<lparr>faults := [(ApiQueueSubmit, DeviceLost)]\<rparr>)
   = (Inl (SystemError DeviceLost), example_busy_device,
      example_busy_environment
        \<lparr>faults := [(ApiQueueSubmit, DeviceLost)],
         calls := [CreateFence {},
                   QueueSubmit None
                     \<lparr>pWaitSemaphores = [], pWaitDstStageMask = [], pCommandBuffers = [10],
                      pSignalSemaphores = [20]\<rparr> 3,
                   DestroyFence 3]\<rparr>)"
  using submit_failure_unwinds [of "[example_job]" "[]" "[example_semaphore]"
      "example_busy_environment\<lparr>faults := [(ApiQueueSubmit, DeviceLost)]\<rparr>" DeviceLost
      "[]" example_busy_device]
  by (simp add: example_defs fresh_fence_def submit_info_of_def unconstructed_def)

section \<open>Choice of the physical device\<close>

lemma selectPhysicalDevice_loop_choice:
  "mPhysicalDevice (fst (selectPhysicalDevice_loop ds (dev, env))) =
     (case mPhysicalDevice dev of
        None \<Rightarrow>
          (case ds of
             [] \<Rightarrow> None
           | d # rest \<Rightarrow> Some (if filter is_discrete rest = [] then d
                                else last (filter is_discrete rest)))
      | Some p \<Rightarrow> Some (if filter is_discrete ds = [] then p else last (filter is_discrete ds)))"
proof (induction ds arbitrary: dev env)
  case Nil
  then show ?case by (simp split: option.splits)
next
  case (Cons d ds)
  show ?case
    by (simp add: Let_def Cons.IH is_discrete_def split: option.splits)
qed

lemma selectPhysicalDevice_loop_calls:
  "calls (snd (selectPhysicalDevice_loop ds (dev, env))) =
     calls env @ map (\<lambda>d. GetPhysicalDeviceProperties (handle d)) ds"
  by (induction ds arbitrary: dev env) (simp_all add: Let_def)

lemma selectPhysicalDevice_loop_batches:
  "mBatchResourceLists (fst (selectPhysicalDevice_loop ds (dev, env))) = mBatchResourceLists dev"
  by (induction ds arbitrary: dev env) (simp_all add: Let_def)

text \<open>
  C4. In the constructor, where no physical device has been chosen yet, and when the
  driver answers the enumeration: \<open>selectPhysicalDevice\<close> asks for the properties of
  every enumerated device in enumeration order; with no device enumerated it throws
  "No available GPU supporting Vulkan."; otherwise it returns with the last discrete GPU
  of the enumeration chosen, or with the first enumerated device when none is discrete.
\<close>

theorem selectPhysicalDevice_choice:
  assumes "mPhysicalDevice dev = None"
    and "map_of (faults env) ApiEnumeratePhysicalDevices = None"
  shows "(physicalDevices env = [] \<longrightarrow>
            fst (selectPhysicalDevice (dev, env))
              = Inl (RuntimeError ''No available GPU supporting Vulkan.''))
       \<and> (physicalDevices env \<noteq> [] \<longrightarrow>
            fst (selectPhysicalDevice (dev, env)) = Inr () \<and>
            mPhysicalDevice (fst (snd (selectPhysicalDevice (dev, env)))) =
              Some (if filter is_discrete (physicalDevices env) = []
                    then hd (physicalDevices env)
                    else last (filter is_discrete (physicalDevices env))))
       \<and> take (Suc (length (physicalDevices env)))
            (drop (length (calls env)) (calls (snd (snd (selectPhysicalDevice (dev, env))))))
          = EnumeratePhysicalDevices
            # map (\<lambda>d. GetPhysicalDeviceProperties (handle d)) (physicalDevices env)"
proof -
  let ?env2 = "called EnumeratePhysicalDevices
      (LOG info separator [] (LOG info ''Available physical devices'' [] env))"
  let ?ds = "physicalDevices env"
  obtain dev1 env3 where loop: "selectPhysicalDevice_loop ?ds (dev, ?env2) = (dev1, env3)"
    by (cases "selectPhysicalDevice_loop ?ds (dev, ?env2)")
  have ch: "mPhysicalDevice dev1 =
      (case ?ds of
         [] \<Rightarrow> None
       | d # rest \<Rightarrow> Some (if filter is_discrete rest = [] then d
                            else last (filter is_discrete rest)))"
    using selectPhysicalDevice_loop_choice [of ?ds dev ?env2] loop assms(1) by simp
  have cl: "calls env3 = calls env @ EnumeratePhysicalDevices
       # map (\<lambda>d. GetPhysicalDeviceProperties (handle d)) ?ds"
    using selectPhysicalDevice_loop_calls [of ?ds dev ?env2] loop by simp
  have sel: "selectPhysicalDevice (dev, env) =
      (case mPhysicalDevice dev1 of
         None \<Rightarrow> (Inl (RuntimeError ''No available GPU supporting Vulkan.''), dev1, env3)
       | Some d \<Rightarrow>
           (Inr (), dev1,
            LOG info ''Using physical device: {}'' [S (deviceName (properties d))]
              (called (GetPhysicalDeviceProperties (handle d)) env3)))"
    using assms(2) loop by (simp add: selectPhysicalDevice_def Let_def vk_try_def)
  show ?thesis
  proof (cases ?ds)
    case Nil
    with ch sel cl show ?thesis by simp
  next
    case (Cons d rest)
    have "mPhysicalDevice dev1 =
        Some (if filter is_discrete ?ds = [] then hd ?ds else last (filter is_discrete ?ds))"
      using ch Cons by simp
    with sel cl Cons show ?thesis by simp
  qed
qed

theorem selectPhysicalDevice_choice_witness:
  "mPhysicalDevice
     (fst (snd (selectPhysicalDevice
                  (unconstructed 0,
                   example_environment
                     \<lparr>physicalDevices := [example_gpu, example_split_gpu,
                                          example_integrated_gpu]\<rparr>))))
     = Some example_split_gpu
   \<and> mPhysicalDevice
       (fst (snd (selectPhysicalDevice
                    (unconstructed 0,
                     example_environment\<lparr>physicalDevices := [example_integrated_gpu]\<rparr>))))
     = Some example_integrated_gpu
   \<and> fst (selectPhysicalDevice
            (unconstructed 0, example_environment\<lparr>physicalDevices := []\<rparr>))
     = Inl (RuntimeError ''No available GPU supporting Vulkan.'')"
  using selectPhysicalDevice_choice [of "unconstructed 0"
      "example_environment\<lparr>physicalDevices := [example_gpu, example_split_gpu,
                                                example_integrated_gpu]\<rparr>"]
    selectPhysicalDevice_choice [of "unconstructed 0"
      "example_environment\<lparr>physicalDevices := [example_integrated_gpu]\<rparr>"]
    selectPhysicalDevice_choice [of "unconstructed 0"
      "example_environment\<lparr>physicalDevices := []\<rparr>"]
  by (simp add: unconstructed_def example_defs is_discrete_def)

section \<open>Choice of the queue family\<close>

lemma selectQueue_from_found:
  "k < length qfs \<Longrightarrow> flags \<subseteq> queueFlags (qfs ! k)
   \<Longrightarrow> \<forall>j<k. \<not> flags \<subseteq> queueFlags (qfs ! j)
   \<Longrightarrow> selectQueue_from i qfs flags = Inr (i + k)"
proof (induction qfs arbitrary: i k)
  case Nil
  then show ?case by simp
next
  case (Cons qf qfs)
  show ?case
  proof (cases k)
    case 0
    with Cons.prems show ?thesis by (simp add: matchAllFlags_def)
  next
    case (Suc k')
    from Cons.prems(3) Suc have "\<not> flags \<subseteq> queueFlags ((qf # qfs) ! 0)" by blast
    then have "\<not> flags \<subseteq> queueFlags qf" by simp
    moreover have "\<forall>j<k'. \<not> flags \<subseteq> queueFlags (qfs ! j)"
    proof (intro allI impI)
      fix j
      assume "j < k'"
      then have "Suc j < k" using Suc by simp
      with Cons.prems(3) have "\<not> flags \<subseteq> queueFlags ((qf # qfs) ! Suc j)" by blast
      then show "\<not> flags \<subseteq> queueFlags (qfs ! j)" by simp
    qed
    then have "selectQueue_from (Suc i) qfs flags = Inr (Suc i + k')"
      using Cons.prems Suc by (intro Cons.IH) auto
    ultimately show ?thesis using Suc by (simp add: matchAllFlags_def)
  qed
qed

lemma selectQueue_from_none:
  "\<forall>qf\<in>set qfs. \<not> flags \<subseteq> queueFlags qf
   \<Longrightarrow> selectQueue_from i qfs flags
        = Inl (RuntimeError ''Could not find a queue family with required flags.'')"
  by (induction qfs arbitrary: i) (simp_all add: matchAllFlags_def)

lemma log_queue_families_fields [simp]:
  "calls (log_queue_families i qfs env) = calls env"
  "faults (log_queue_families i qfs env) = faults env"
  by (induction qfs arbitrary: i env) simp_all

text \<open>
  C5, as the code has it. For every queue-family table of the chosen physical device,
  and when the driver accepts the creation of the logical device:
  \<open>createDeviceAndQueues\<close> takes the lowest family index whose flags contain graphics and
  transfer; it returns with that index stored when that family can present to the
  target surface, throws when that family cannot present, and throws when no family has
  both flags. Families after the lowest one with both flags are not considered.
\<close>

theorem createDevice_selects_lowest:
  assumes "mPhysicalDevice dev = Some d"
    and "map_of (faults env) ApiCreateDevice = None"
  shows "(\<forall>k. lowest_graphics_transfer (queueFamilyProperties d) k
             \<and> k \<in> set (presentationSupport d) \<longrightarrow>
            fst (createDeviceAndQueues (dev, env)) = Inr () \<and>
            mGraphicsQueueFamilyIndex (fst (snd (createDeviceAndQueues (dev, env)))) = k)
       \<and> (\<forall>k. lowest_graphics_transfer (queueFamilyProperties d) k
             \<and> k \<notin> set (presentationSupport d) \<longrightarrow>
            fst (createDeviceAndQueues (dev, env))
              = Inl (RuntimeError ''Graphics queue does not support presentation.''))
       \<and> ((\<forall>qf\<in>set (queueFamilyProperties d). \<not> {Graphics, Transfer} \<subseteq> queueFlags qf) \<longrightarrow>
            fst (createDeviceAndQueues (dev, env))
              = Inl (RuntimeError ''Could not find a queue family with required flags.''))"
proof (intro conjI allI impI)
  fix k
  assume "lowest_graphics_transfer (queueFamilyProperties d) k
             \<and> k \<in> set (presentationSupport d)"
  then have sel: "selectQueue (queueFamilyProperties d) {Graphics, Transfer} = Inr k"
    and p: "k \<in> set (presentationSupport d)"
    using selectQueue_from_found [of k "queueFamilyProperties d" "{Graphics, Transfer}" 0]
    by (simp_all add: lowest_graphics_transfer_def selectQueue_def)
  show "fst (createDeviceAndQueues (dev, env)) = Inr ()"
    using assms sel p
    by (simp add: createDeviceAndQueues_def Let_def checkQueuePresentationCapacity_def
        vk_try_def)
  show "mGraphicsQueueFamilyIndex (fst (snd (createDeviceAndQueues (dev, env)))) = k"
    using assms sel p
    by (simp add: createDeviceAndQueues_def Let_def checkQueuePresentationCapacity_def
        vk_try_def)
next
  fix k
  assume "lowest_graphics_transfer (queueFamilyProperties d) k
             \<and> k \<notin> set (presentationSupport d)"
  then have sel: "selectQueue (queueFamilyProperties d) {Graphics, Transfer} = Inr k"
    and p: "k \<notin> set (presentationSupport d)"
    using selectQueue_from_found [of k "queueFamilyProperties d" "{Graphics, Transfer}" 0]
    by (simp_all add: lowest_graphics_transfer_def selectQueue_def)
  show "fst (createDeviceAndQueues (dev, env))
              = Inl (RuntimeError ''Graphics queue does not support presentation.'')"
    using assms(1) sel p
    by (simp add: createDeviceAndQueues_def Let_def checkQueuePresentationCapacity_def)
next
  assume "\<forall>qf\<in>set (queueFamilyProperties d). \<not> {Graphics, Transfer} \<subseteq> queueFlags qf"
  then have sel: "selectQueue (queueFamilyProperties d) {Graphics, Transfer}
       = Inl (RuntimeError ''Could not find a queue family with required flags.'')"
    using selectQueue_from_none [of "queueFamilyProperties d" "{Graphics, Transfer}" 0]
    by (simp add: selectQueue_def)
  show "fst (createDeviceAndQueues (dev, env))
              = Inl (RuntimeError ''Could not find a queue family with required flags.'')"
    using assms(1) sel by (simp add: createDeviceAndQueues_def Let_def)
qed

theorem createDevice_selects_lowest_witness:
  "mGraphicsQueueFamilyIndex
     (fst (snd (createDeviceAndQueues
                  ((unconstructed 7)\<lparr>mPhysicalDevice := Some example_gpu\<rparr>,
                   example_environment)))) = 0
   \<and> fst (createDeviceAndQueues
            ((unconstructed 7)\<lparr>mPhysicalDevice := Some example_split_gpu\<rparr>,
             example_environment))
     = Inl (RuntimeError ''Graphics queue does not support presentation.'')"
proof -
  have a: "lowest_graphics_transfer (queueFamilyProperties example_gpu) 0
        \<and> 0 \<in> set (presentationSupport example_gpu)"
    by (simp add: lowest_graphics_transfer_def example_defs)
  have b: "lowest_graphics_transfer (queueFamilyProperties example_split_gpu) 0
        \<and> 0 \<notin> set (presentationSupport example_split_gpu)"
    by (simp add: lowest_graphics_transfer_def example_defs)
  have f: "map_of (faults example_environment) ApiCreateDevice = None"
    by (simp add: example_defs)
  have p: "mPhysicalDevice ((unconstructed 7)\<lparr>mPhysicalDevice := Some g\<rparr>) = Some g" for g
    by simp
  from createDevice_selects_lowest [OF p f, of example_gpu] a
  have "mGraphicsQueueFamilyIndex
     (fst (snd (createDeviceAndQueues
                  ((unconstructed 7)\<lparr>mPhysicalDevice := Some example_gpu\<rparr>,
                   example_environment)))) = 0"
    by blast
  moreover from createDevice_selects_lowest [OF p f, of example_split_gpu] b
  have "fst (createDeviceAndQueues
            ((unconstructed 7)\<lparr>mPhysicalDevice := Some example_split_gpu\<rparr>,
             example_environment))
     = Inl (RuntimeError ''Graphics queue does not support presentation.'')"
    by blast
  ultimately show ?thesis by simp
qed

text \<open>
  C5, as the claim states it, fails: on a device whose family 0 has graphics and
  transfer but cannot present, and whose family 1 has graphics and transfer and can
  present, family 1 is the lowest family that qualifies, and the selection throws
  instead of returning it.
\<close>

theorem queue_selection_counterexample:
  "{Graphics, Transfer} \<subseteq> queueFlags (queueFamilyProperties example_split_gpu ! 1)
   \<and> 1 \<in> set (presentationSupport example_split_gpu)
   \<and> 0 \<notin> set (presentationSupport example_split_gpu)
   \<and> createDeviceAndQueues
       ((unconstructed 7)\<lparr>mPhysicalDevice := Some example_split_gpu\<rparr>, example_environment)
     = (Inl (RuntimeError ''Graphics queue does not support presentation.''),
        (unconstructed 7)\<lparr>mPhysicalDevice := Some example_split_gpu\<rparr>,
        example_environment
          \<lparr>calls := [GetPhysicalDeviceQueueFamilyProperties 3],
           logged :=
             [(info, ''Creating device and queues'', []),
              (info, ''Supported queue families:'', []),
              (info, ''#{}: {} * {}'', [N 0, QueueFlagsArg {Graphics, Compute, Transfer}, N 1]),
              (info, ''#{}: {} * {}'', [N 1, QueueFlagsArg {Graphics, Transfer}, N 1])]\<rparr>)"
  by (simp add: createDeviceAndQueues_def selectQueue_def matchAllFlags_def
      checkQueuePresentationCapacity_def unconstructed_def example_defs LOG_def called_def
      Let_def)

section \<open>The memory pools\<close>

text \<open>
  C7. When the driver grants the two allocations, \<open>createMemoryPools\<close> constructs exactly
  two pools and stores them: a buffer pool of 128 MiB with memory properties host-visible
  and host-coherent and usage vertex, index and uniform buffer, and an image pool of
  128 MiB with the same memory properties and usage sampled. Both are given an allocator
  creator that makes a bitmap allocator over the required size with blocks of 32 KiB.
  These sizes are the defaults the spec gives for \<open>dynamic_buffer_pool_bytes\<close>,
  \<open>host_image_pool_bytes\<close> and \<open>allocator_block_bytes\<close>.
\<close>

theorem createMemoryPools_pools:
  assumes "map_of (faults env) ApiAllocateMemory = None"
  shows "createMemoryPools (dev, env) =
     (Inr (),
      dev\<lparr>mDynamicBufferPool := Some
             \<lparr>buffer_pool_size = 128 * MiB,
              buffer_pool_memory_properties = {HostVisible, HostCoherent},
              buffer_pool_usages = {VertexBuffer, IndexBuffer, UniformBuffer},
              buffer_pool_allocator_creator = allocator_creator\<rparr>,
          mHostImagePool := Some
             \<lparr>image_pool_size = 128 * MiB,
              image_pool_memory_properties = {HostVisible, HostCoherent},
              image_pool_usages = {Sampled},
              image_pool_allocator_creator = allocator_creator\<rparr>\<rparr>,
      env\<lparr>calls := calls env @
            [AllocateMemory (128 * MiB) {HostVisible, HostCoherent},
             AllocateMemory (128 * MiB) {HostVisible, HostCoherent}]\<rparr>)
     \<and> allocator_creator req
         = \<lparr>base = None, total_size = req_size req, block_size = 32 * KiB\<rparr>
     \<and> 128 * MiB = dynamic_buffer_pool_bytes default_options
     \<and> 128 * MiB = host_image_pool_bytes default_options
     \<and> 32 * KiB = allocator_block_bytes default_options
     \<and> 128 * MiB = (134217728 :: nat) \<and> 32 * KiB = (32768 :: nat)"
  using assms
  by (simp add: createMemoryPools_def make_BitmapBufferPool_def make_BitmapImagePool_def
      vk_try_def called_def allocator_creator_def MiB_def KiB_def default_options_def)

theorem createMemoryPools_pools_witness:
  "map_option buffer_pool_size
     (mDynamicBufferPool (fst (snd (createMemoryPools (unconstructed 0, example_environment)))))
     = Some 134217728
   \<and> map_option image_pool_size
     (mHostImagePool (fst (snd (createMemoryPools (unconstructed 0, example_environment)))))
     = Some 134217728"
  using createMemoryPools_pools [of example_environment "unconstructed 0"]
  by (simp add: example_defs MiB_def)

section \<open>The constructed device\<close>

lemma and_then_Inr:
  "and_then r f = (Inr u, s') \<Longrightarrow> \<exists>s. r = (Inr (), s) \<and> f s = (Inr u, s')"
  by (cases r) (auto simp: and_then_def split: sum.splits)

lemma log_extensions_calls [simp]: "calls (log_extensions xs env) = calls env"
  by (induction xs arbitrary: env) simp_all

lemma log_layers_calls [simp]: "calls (log_layers xs env) = calls env"
  by (induction xs arbitrary: env) auto

lemma createInstance_keeps:
  "createInstance (dev, env) = (r, dev', env') \<Longrightarrow>
     mBatchResourceLists dev' = mBatchResourceLists dev
     \<and> submit_queues (calls env') = submit_queues (calls env)"
  by (auto simp: createInstance_def Let_def vk_try_def split: option.splits)

lemma createDebugReport_keeps:
  "createDebugReport (dev, env) = (r, dev', env') \<Longrightarrow>
     mBatchResourceLists dev' = mBatchResourceLists dev
     \<and> submit_queues (calls env') = submit_queues (calls env)"
  by (auto simp: createDebugReport_def Let_def vk_try_def split: option.splits)

lemma selectPhysicalDevice_keeps:
  assumes "selectPhysicalDevice (dev, env) = (r, dev', env')"
  shows "mBatchResourceLists dev' = mBatchResourceLists dev
     \<and> submit_queues (calls env') = submit_queues (calls env)"
proof -
  let ?env2 = "called EnumeratePhysicalDevices
      (LOG info separator [] (LOG info ''Available physical devices'' [] env))"
  have m: "submit_queues (map (\<lambda>d. GetPhysicalDeviceProperties (handle d)) ds) = []" for ds
    by (simp add: submit_queues_def)
  obtain dev1 env3 where loop:
    "selectPhysicalDevice_loop (physicalDevices env) (dev, ?env2) = (dev1, env3)"
    by (cases "selectPhysicalDevice_loop (physicalDevices env) (dev, ?env2)")
  have b: "mBatchResourceLists dev1 = mBatchResourceLists dev"
    using selectPhysicalDevice_loop_batches [of "physicalDevices env" dev ?env2] loop by simp
  have c: "submit_queues (calls env3) = submit_queues (calls env)"
    using selectPhysicalDevice_loop_calls [of "physicalDevices env" dev ?env2] loop
    by (simp add: m)
  from assms loop b c show ?thesis
    by (auto simp: selectPhysicalDevice_def Let_def vk_try_def split: option.splits)
qed

lemma createDeviceAndQueues_keeps:
  "createDeviceAndQueues (dev, env) = (r, dev', env') \<Longrightarrow>
     mBatchResourceLists dev' = mBatchResourceLists dev
     \<and> submit_queues (calls env') = submit_queues (calls env)"
  by (auto simp: createDeviceAndQueues_def Let_def vk_try_def
      split: sum.splits option.splits)

lemma createDeviceAndQueues_Inr:
  "createDeviceAndQueues (dev, env) = (Inr u, dev', env') \<Longrightarrow>
     mGraphicsQueue dev' = Some (getQueue (mGraphicsQueueFamilyIndex dev') 0)
     \<and> GetDeviceQueue (mGraphicsQueueFamilyIndex dev') 0 \<in> set (calls env')"
  by (auto simp: createDeviceAndQueues_def Let_def vk_try_def
      split: sum.splits option.splits)

lemma createMemoryPools_keeps:
  "createMemoryPools (dev, env) = (r, dev', env') \<Longrightarrow>
     mGraphicsQueue dev' = mGraphicsQueue dev
     \<and> mGraphicsQueueFamilyIndex dev' = mGraphicsQueueFamilyIndex dev
     \<and> mBatchResourceLists dev' = mBatchResourceLists dev
     \<and> set (calls env) \<subseteq> set (calls env')
     \<and> submit_queues (calls env') = submit_queues (calls env)"
  by (auto simp: createMemoryPools_def make_BitmapBufferPool_def make_BitmapImagePool_def
      vk_try_def split: sum.splits option.splits)

text \<open>
  What a successful construction establishes: the stored queue is queue 0 of the stored
  family and was obtained from the logical device, nothing is outstanding, and nothing
  was submitted to any queue.
\<close>

lemma ctor_Inr:
  assumes "VulkanGpuDevice_ctor i env0 = (Inr dev, env)"
  shows "mGraphicsQueue dev = Some (getQueue (mGraphicsQueueFamilyIndex dev) 0)"
    and "mBatchResourceLists dev = []"
    and "GetDeviceQueue (mGraphicsQueueFamilyIndex dev) 0 \<in> set (calls env)"
    and "submit_queues (calls env) = submit_queues (calls env0)"
proof -
  from assms have "and_then (and_then (and_then (and_then
             (createInstance (unconstructed i, env0))
             createDebugReport) selectPhysicalDevice) createDeviceAndQueues)
             createMemoryPools = (Inr (), dev, env)"
    by (auto simp: VulkanGpuDevice_ctor_def split: prod.splits sum.splits)
  then obtain s4 where s4: "and_then (and_then (and_then
             (createInstance (unconstructed i, env0))
             createDebugReport) selectPhysicalDevice) createDeviceAndQueues = (Inr (), s4)"
      and e5: "createMemoryPools s4 = (Inr (), dev, env)"
    using and_then_Inr by blast
  then obtain s3 where s3: "and_then (and_then
             (createInstance (unconstructed i, env0))
             createDebugReport) selectPhysicalDevice = (Inr (), s3)"
      and e4: "createDeviceAndQueues s3 = (Inr (), s4)"
    using and_then_Inr by blast
  then obtain s2 where s2: "and_then (createInstance (unconstructed i, env0))
             createDebugReport = (Inr (), s2)"
      and e3: "selectPhysicalDevice s2 = (Inr (), s3)"
    using and_then_Inr by blast
  then obtain s1 where s1: "createInstance (unconstructed i, env0) = (Inr (), s1)"
      and e2: "createDebugReport s1 = (Inr (), s2)"
    using and_then_Inr by blast
  have k1: "mBatchResourceLists (fst s1) = []
      \<and> submit_queues (calls (snd s1)) = submit_queues (calls env0)"
    using createInstance_keeps [of "unconstructed i" env0 "Inr ()" "fst s1" "snd s1"] s1
    by (simp add: unconstructed_def)
  have k2: "mBatchResourceLists (fst s2) = mBatchResourceLists (fst s1)
      \<and> submit_queues (calls (snd s2)) = submit_queues (calls (snd s1))"
    using createDebugReport_keeps [of "fst s1" "snd s1" "Inr ()" "fst s2" "snd s2"] e2
    by simp
  have k3: "mBatchResourceLists (fst s3) = mBatchResourceLists (fst s2)
      \<and> submit_queues (calls (snd s3)) = submit_queues (calls (snd s2))"
    using selectPhysicalDevice_keeps [of "fst s2" "snd s2" "Inr ()" "fst s3" "snd s3"] e3
    by simp
  have k4: "mBatchResourceLists (fst s4) = mBatchResourceLists (fst s3)
      \<and> submit_queues (calls (snd s4)) = submit_queues (calls (snd s3))"
    using createDeviceAndQueues_keeps [of "fst s3" "snd s3" "Inr ()" "fst s4" "snd s4"] e4
    by simp
  have q4: "mGraphicsQueue (fst s4) = Some (getQueue (mGraphicsQueueFamilyIndex (fst s4)) 0)
     \<and> GetDeviceQueue (mGraphicsQueueFamilyIndex (fst s4)) 0 \<in> set (calls (snd s4))"
    using createDeviceAndQueues_Inr [of "fst s3" "snd s3" "()" "fst s4" "snd s4"] e4 by simp
  have k5: "mGraphicsQueue dev = mGraphicsQueue (fst s4)
     \<and> mGraphicsQueueFamilyIndex dev = mGraphicsQueueFamilyIndex (fst s4)
     \<and> mBatchResourceLists dev = mBatchResourceLists (fst s4)
     \<and> set (calls (snd s4)) \<subseteq> set (calls env)
     \<and> submit_queues (calls env) = submit_queues (calls (snd s4))"
    using createMemoryPools_keeps [of "fst s4" "snd s4" "Inr ()" dev env] e5 by simp
  show "mGraphicsQueue dev = Some (getQueue (mGraphicsQueueFamilyIndex dev) 0)"
    using q4 k5 by simp
  show "mBatchResourceLists dev = []"
    using k1 k2 k3 k4 k5 by simp
  show "GetDeviceQueue (mGraphicsQueueFamilyIndex dev) 0 \<in> set (calls env)"
    using q4 k5 by auto
  show "submit_queues (calls env) = submit_queues (calls env0)"
    using k1 k2 k3 k4 k5 by simp
qed

text \<open>The constructor succeeds in the example environment, on the discrete GPU.\<close>

lemma example_ctor:
  "VulkanGpuDevice_ctor 0 example_environment = (Inr example_device, example_ready)"
proof -
  have "isl (fst (VulkanGpuDevice_ctor 0 example_environment)) = False"
    by (simp add: init_defs driver_defs example_defs)
  then have "fst (VulkanGpuDevice_ctor 0 example_environment) = Inr example_device"
    unfolding example_device_def by (metis sum.collapse(2))
  then show ?thesis
    unfolding example_ready_def by (metis prod.collapse)
qed

lemma example_device_choice:
  "mPhysicalDevice example_device = Some example_gpu
   \<and> mGraphicsQueueFamilyIndex example_device = 0"
  unfolding example_device_def
  by (simp add: init_defs driver_defs example_defs)

section \<open>Destruction\<close>

lemma destroy_batches_calls:
  "calls (destroy_batches bs env) = calls env @ map (\<lambda>b. DestroyFence (fence b)) bs"
  by (induction bs arbitrary: env) simp_all

lemma destroy_members_calls:
  "\<exists>rest. calls (destroy_members dev env) = calls env @ rest"
  by (simp add: destroy_members_def Let_def destroy_batches_calls split: option.splits)

text \<open>
  C9. For a device that was constructed and then used through any history of
  submissions, reclaim passes, waits and GPU progress: the first driver call of the
  destructor is the wait for the logical device to be idle, and every call of the
  teardown comes after it. When the wait fails, the exception leaves the destructor
  body and no member is destroyed. When it returns, the members are destroyed starting
  from the driver state the wait left, and in that state the fence of every outstanding
  batch is signaled.
\<close>

theorem dtor_waits_before_teardown:
  assumes "VulkanGpuDevice_ctor i env0 = (Inr dev0, env1)"
    and "run evs (dev0, env1) = (dev, env)"
  shows "(\<exists>rest. calls (snd (VulkanGpuDevice_dtor (dev, env)))
                   = calls env @ DeviceWaitIdle # rest)
     \<and> (\<forall>e. map_of (faults env) ApiDeviceWaitIdle = Some e \<longrightarrow>
           VulkanGpuDevice_dtor (dev, env) = (Inl (SystemError e), called DeviceWaitIdle env))
     \<and> (map_of (faults env) ApiDeviceWaitIdle = None \<longrightarrow>
           VulkanGpuDevice_dtor (dev, env)
             = (Inr (), destroy_members dev (snd (device_waitIdle env)))
           \<and> (\<forall>b\<in>set (mBatchResourceLists dev).
                 fence b \<in> set (signaledFences (snd (device_waitIdle env)))))"
proof -
  have "fences_submitted (dev0, env1)"
    using ctor_Inr(2) [OF assms(1)] by (simp add: fences_submitted_def)
  then have inv: "fences_submitted (dev, env)"
    using run_fences_submitted [of "(dev0, env1)" evs] assms(2) by simp
  show ?thesis
  proof (cases "map_of (faults env) ApiDeviceWaitIdle")
    case (Some e)
    then show ?thesis
      by (simp add: VulkanGpuDevice_dtor_def device_waitIdle_fail)
  next
    case None
    note w = device_waitIdle_ok [OF None]
    obtain rest where "calls (destroy_members dev (snd (device_waitIdle env)))
        = calls (snd (device_waitIdle env)) @ rest"
      using destroy_members_calls by blast
    then have "calls (snd (VulkanGpuDevice_dtor (dev, env)))
        = calls env @ DeviceWaitIdle # rest"
      using w by (simp add: VulkanGpuDevice_dtor_def)
    moreover have "\<forall>b\<in>set (mBatchResourceLists dev).
                 fence b \<in> set (signaledFences (snd (device_waitIdle env)))"
      using inv w by (auto simp: fences_submitted_def list_all_iff)
    ultimately show ?thesis
      using None w by (simp add: VulkanGpuDevice_dtor_def)
  qed
qed

theorem dtor_waits_before_teardown_witness:
  "(\<exists>rest. calls (snd (VulkanGpuDevice_dtor (run example_history (example_device, example_ready))))
       = calls (snd (run example_history (example_device, example_ready)))
         @ DeviceWaitIdle # rest)
   \<and> mBatchResourceLists (fst (run example_history (example_device, example_ready)))
       = [\<lparr>fence = 1,
           resources = [CommandListResource example_job,
                        SemaphoreResource example_semaphore]\<rparr>]
   \<and> 1 \<in> set (signaledFences
         (snd (device_waitIdle (snd (run example_history (example_device, example_ready))))))"
proof -
  let ?s = "run example_history (example_device, example_ready)"
  have s: "run example_history (example_device, example_ready) = (fst ?s, snd ?s)"
    by simp
  note T = dtor_waits_before_teardown [OF example_ctor s]
  have f: "map_of (faults (snd ?s)) ApiDeviceWaitIdle = None"
    unfolding example_history_def example_device_def example_ready_def
    by (simp add: init_defs driver_defs example_defs submitGraphicsJobs_def
        reclaimResources_def)
  have b: "mBatchResourceLists (fst ?s)
       = [\<lparr>fence = 1,
           resources = [CommandListResource example_job,
                        SemaphoreResource example_semaphore]\<rparr>]"
    unfolding example_history_def example_device_def example_ready_def
    by (simp add: init_defs driver_defs example_defs submitGraphicsJobs_def
        reclaimResources_def)
  from T f have "\<forall>b\<in>set (mBatchResourceLists (fst ?s)).
      fence b \<in> set (signaledFences (snd (device_waitIdle (snd ?s))))"
    by simp
  with b have "1 \<in> set (signaledFences (snd (device_waitIdle (snd ?s))))"
    by simp
  moreover from T have "\<exists>rest. calls (snd (VulkanGpuDevice_dtor ?s))
       = calls (snd ?s) @ DeviceWaitIdle # rest"
    by simp
  ultimately show ?thesis using b by simp
qed

section \<open>One queue for graphics and presentation\<close>

text \<open>
  C10. For a device that was constructed and then used through any history: the queue
  \<open>presentQueue\<close> returns is the queue stored at initialization, which is queue 0 of the
  family \<open>graphicsQueueFamily\<close> returns and was obtained from the logical device for that
  family and index; and every queue submission made since the construction began went to
  that queue.
\<close>

theorem present_queue_is_graphics_queue:
  assumes "VulkanGpuDevice_ctor i env0 = (Inr dev0, env1)"
    and "run evs (dev0, env1) = (dev, env)"
  shows "presentQueue dev = Some (getQueue (graphicsQueueFamily dev) 0)
     \<and> presentQueue dev = mGraphicsQueue dev0
     \<and> graphicsQueueFamily dev = graphicsQueueFamily dev0
     \<and> GetDeviceQueue (graphicsQueueFamily dev) 0 \<in> set (calls env1)
     \<and> set (submit_queues (calls env))
         \<subseteq> set (submit_queues (calls env0)) \<union> {presentQueue dev}"
  using ctor_Inr [OF assms(1)] run_queue [of evs "(dev0, env1)"] assms(2)
  by (auto simp: presentQueue_def graphicsQueueFamily_def)

theorem present_queue_is_graphics_queue_witness:
  "presentQueue (fst (run example_history (example_device, example_ready))) = Some (Queue 0 0)
   \<and> submit_queues (calls (snd (run example_history (example_device, example_ready))))
       = [Some (Queue 0 0)]"
proof -
  let ?s = "run example_history (example_device, example_ready)"
  have s: "run example_history (example_device, example_ready) = (fst ?s, snd ?s)"
    by simp
  note T = present_queue_is_graphics_queue [OF example_ctor s]
  have "presentQueue (fst ?s) = Some (Queue 0 0)"
    using T example_device_choice by (simp add: graphicsQueueFamily_def getQueue_def)
  moreover have "submit_queues (calls (snd ?s)) = [Some (Queue 0 0)]"
    unfolding example_history_def example_device_def example_ready_def
    by (simp add: init_defs driver_defs example_defs submitGraphicsJobs_def
        reclaimResources_def submit_queues_def)
  ultimately show ?thesis by simp
qed

end
